theory Spec2Isabelle
  imports Complex_Main
begin

section \<open>JavaScript values used by the GlowMin command-line scripts\<close>

text \<open>
  The three Node scripts (\<^verbatim>\<open>deploy-metadata.js\<close>, \<^verbatim>\<open>mint-token.js\<close>,
  \<^verbatim>\<open>create-liquidity.js\<close>) are modelled as functions from an environment, which fixes
  the outcome of every external call, to the list of effects the script performs and the
  way it ends. Errors are values; \<^verbatim>\<open>process.exit\<close> is a result of its own, which no
  \<^verbatim>\<open>catch\<close> intercepts. Console lines are recorded without their leading pictograph, and
  only those that mark a phase, a step or a failure; the lines printed under
  \<^verbatim>\<open>--verbose\<close> are left out.
\<close>

type_synonym pubkey = string

datatype js_error =
    TypeError string
  | SyntaxError string
  | RangeError string
  | Error string

fun message :: "js_error \<Rightarrow> string" where
  "message (TypeError m) = m"
| "message (SyntaxError m) = m"
| "message (RangeError m) = m"
| "message (Error m) = m"

text \<open>Reading property \<open>p\<close> of \<^verbatim>\<open>undefined\<close> (the message Node 16 and later print).\<close>

definition quoted :: "string \<Rightarrow> string" where
  "quoted s = [CHR 0x27] @ s @ [CHR 0x27]"

definition cannot_read :: "string \<Rightarrow> js_error" where
  "cannot_read p =
     TypeError (''Cannot read properties of undefined (reading '' @ quoted p @ '')'')"

subsection \<open>Numbers: IEEE 754 doubles on the values the scripts compute with\<close>

text \<open>
  \<^verbatim>\<open>config.token.total_supply\<close> is a JavaScript Number holding a natural number. The
  literals \<^verbatim>\<open>0.4\<close>, \<^verbatim>\<open>0.3\<close>, \<^verbatim>\<open>0.15\<close>, \<^verbatim>\<open>0.1\<close>, \<^verbatim>\<open>0.05\<close> denote the nearest doubles,
  written here as a pair \<open>(m, k)\<close> standing for \<open>m / 2 ^ k\<close> with a 53-bit \<open>m\<close>. The product
  of a natural number \<open>T\<close> and \<open>(m, k)\<close> is the exact value \<open>T * m / 2 ^ k\<close> rounded to 53
  significant bits, ties to even; no overflow or underflow is possible for these operands.
\<close>

type_synonym dyadic = "nat \<times> nat"

fun bit_length :: "nat \<Rightarrow> nat" where
  "bit_length n = (if n = 0 then 0 else Suc (bit_length (n div 2)))"

declare bit_length.simps [simp del]

definition round53 :: "nat \<Rightarrow> nat" where
  "round53 P =
     (let s = bit_length P - 53; q = P div 2 ^ s; r = P mod 2 ^ s in
      if s = 0 then P
      else if 2 ^ (s - 1) < r \<or> (r = 2 ^ (s - 1) \<and> odd q) then (q + 1) * 2 ^ s
      else q * 2 ^ s)"

definition js_times :: "nat \<Rightarrow> dyadic \<Rightarrow> dyadic" where
  "js_times T c = (round53 (T * fst c), snd c)"

definition Math_floor :: "dyadic \<Rightarrow> nat" where
  "Math_floor x = fst x div 2 ^ snd x"

definition BigInt :: "nat \<Rightarrow> int" where
  "BigInt n = int n"

definition d_0_4 :: dyadic where "d_0_4 = (7205759403792794, 54)"
definition d_0_3 :: dyadic where "d_0_3 = (5404319552844595, 54)"
definition d_0_15 :: dyadic where "d_0_15 = (5404319552844595, 55)"
definition d_0_1 :: dyadic where "d_0_1 = (7205759403792794, 56)"
definition d_0_05 :: dyadic where "d_0_05 = (7205759403792794, 57)"

text \<open>A natural number is a Number exactly when rounding leaves it unchanged.\<close>

definition is_js_number :: "nat \<Rightarrow> bool" where
  "is_js_number T = (round53 T = T)"

subsection \<open>Strings: decimal rendering, comparison, conversion\<close>

definition digit_char :: "nat \<Rightarrow> char" where
  "digit_char d = ''0123456789'' ! d"

text \<open>\<^verbatim>\<open>Number.prototype.toString\<close> on a natural number below \<open>10 ^ 21\<close>.\<close>

fun toString :: "nat \<Rightarrow> string" where
  "toString n = (if n < 10 then [digit_char n] else toString (n div 10) @ [digit_char (n mod 10)])"

declare toString.simps [simp del]

text \<open>The relational operator \<^verbatim>\<open><\<close> on two strings compares code units lexicographically.\<close>

fun js_string_less :: "string \<Rightarrow> string \<Rightarrow> bool" where
  "js_string_less [] [] = False"
| "js_string_less [] (y # ys) = True"
| "js_string_less (x # xs) [] = False"
| "js_string_less (x # xs) (y # ys) =
     (if x = y then js_string_less xs ys else (of_char x :: nat) < of_char y)"

definition is_digit :: "char \<Rightarrow> bool" where
  "is_digit c = (c \<in> set ''0123456789'')"

definition digit_value :: "char \<Rightarrow> nat" where
  "digit_value c = of_char c - 48"

definition decimal_value :: "string \<Rightarrow> nat" where
  "decimal_value s = foldl (\<lambda>acc c. 10 * acc + digit_value c) 0 s"

text \<open>
  \<^verbatim>\<open>BigInt(string)\<close> on the empty string and on decimal literals with an optional sign;
  every other string modelled here is a SyntaxError. (White space around the literal and
  the prefixes \<^verbatim>\<open>0x\<close>, \<^verbatim>\<open>0o\<close>, \<^verbatim>\<open>0b\<close>, which JavaScript also accepts, are outside the model.)
\<close>

definition BigInt_of_string :: "string \<Rightarrow> js_error + int" where
  "BigInt_of_string s =
     (if s = [] then Inr 0
      else if list_all is_digit s then Inr (int (decimal_value s))
      else if hd s = CHR ''-'' \<and> tl s \<noteq> [] \<and> list_all is_digit (tl s)
        then Inr (- int (decimal_value (tl s)))
      else if hd s = CHR ''+'' \<and> tl s \<noteq> [] \<and> list_all is_digit (tl s)
        then Inr (int (decimal_value (tl s)))
      else Inl (SyntaxError (''Cannot convert '' @ s @ '' to a BigInt'')))"

datatype js_num = NaN | Num int

text \<open>
  \<^verbatim>\<open>parseInt(string)\<close>: the longest decimal prefix after an optional sign, \<^verbatim>\<open>NaN\<close> when it
  is empty. (Leading white space and the prefix \<^verbatim>\<open>0x\<close> are outside the model.)
\<close>

definition parseInt :: "string \<Rightarrow> js_num" where
  "parseInt s =
     (let neg = (s \<noteq> [] \<and> hd s = CHR ''-'');
          body = (if s \<noteq> [] \<and> (hd s = CHR ''-'' \<or> hd s = CHR ''+'') then tl s else s);
          ds = takeWhile is_digit body
      in if ds = [] then NaN
         else Num (if neg then - int (decimal_value ds) else int (decimal_value ds)))"

text \<open>Truthiness of a BigInt or \<^verbatim>\<open>null\<close>, as tested by \<^verbatim>\<open>if (amount)\<close>.\<close>

fun truthy_bigint :: "int option \<Rightarrow> bool" where
  "truthy_bigint None = False"
| "truthy_bigint (Some n) = (n \<noteq> 0)"



section \<open>Effects and results\<close>

text \<open>Calls on the network connection and the token and metadata programs.\<close>

datatype rpc =
    GetVersion
  | GetSlot
  | GetParsedAccountInfo pubkey
  | GetBalance pubkey
  | GetTokenAccountBalance pubkey
  | CreateMint
  | GetOrCreateAssociatedTokenAccount pubkey
  | MintTo pubkey int
  | SetAuthority
  | CreateMetadataAccountV3

text \<open>The calls that submit a transaction, that is, change on-chain state.\<close>

fun mutates :: "rpc \<Rightarrow> bool" where
  "mutates CreateMint = True"
| "mutates (GetOrCreateAssociatedTokenAccount owner) = True"
| "mutates (MintTo account n) = True"
| "mutates SetAuthority = True"
| "mutates CreateMetadataAccountV3 = True"
| "mutates GetVersion = False"
| "mutates GetSlot = False"
| "mutates (GetParsedAccountInfo a) = False"
| "mutates (GetBalance a) = False"
| "mutates (GetTokenAccountBalance a) = False"

text \<open>One entry of the \<^verbatim>\<open>results\<close> array of \<^verbatim>\<open>distributeTokens\<close>.\<close>

record distribution =
  d_name :: string
  d_amount :: int
  d_recipient :: pubkey
  d_purpose :: string

record step_result =
  sr_distribution :: distribution
  sr_tokenAccount :: "string option"
  sr_signature :: "string option"
  sr_error :: "string option"

text \<open>
  What the scripts write under \<^verbatim>\<open>../deployments\<close>: the object passed to
  \<^verbatim>\<open>JSON.stringify\<close>, field by field.
\<close>

datatype file_content =
    Deployment_info nat string string pubkey pubkey string
  | Distribution_info nat string pubkey nat "step_result list"
  | Pool_info nat string pubkey nat nat string string nat string

datatype effect =
    Rpc rpc
  | Fs_mkdir string
  | Fs_write string file_content
  | Console_log string
  | Console_error string
  | Sleep nat

datatype 'a res = Ok 'a | Throw js_error | Exit nat

type_synonym 'a run = "effect list \<times> 'a res"

definition andThen :: "'a run \<Rightarrow> ('a \<Rightarrow> 'b run) \<Rightarrow> 'b run" where
  "andThen m f =
     (case m of
        (t, Ok x) \<Rightarrow> (case f x of (t', r) \<Rightarrow> (t @ t', r))
      | (t, Throw e) \<Rightarrow> (t, Throw e)
      | (t, Exit n) \<Rightarrow> (t, Exit n))"

definition tryCatch :: "'a run \<Rightarrow> (js_error \<Rightarrow> 'a run) \<Rightarrow> 'a run" where
  "tryCatch m h =
     (case m of
        (t, Throw e) \<Rightarrow> (case h e of (t', r) \<Rightarrow> (t @ t', r))
      | (t, Ok x) \<Rightarrow> (t, Ok x)
      | (t, Exit n) \<Rightarrow> (t, Exit n))"

definition ok :: "'a \<Rightarrow> 'a run" where
  "ok x = ([], Ok x)"

definition throw :: "js_error \<Rightarrow> 'a run" where
  "throw e = ([], Throw e)"

definition emit :: "effect \<Rightarrow> unit run" where
  "emit e = ([e], Ok ())"

definition process_exit :: "nat \<Rightarrow> 'a run" where
  "process_exit n = ([], Exit n)"

text \<open>An external call: the effect is recorded, the environment decides the outcome.\<close>

definition ext :: "effect \<Rightarrow> js_error + 'a \<Rightarrow> 'a run" where
  "ext e outcome = ([e], case outcome of Inl err \<Rightarrow> Throw err | Inr v \<Rightarrow> Ok v)"

definition ext_unit :: "effect \<Rightarrow> js_error option \<Rightarrow> unit run" where
  "ext_unit e outcome = ([e], case outcome of Some err \<Rightarrow> Throw err | None \<Rightarrow> Ok ())"

text \<open>
  How the process ends: \<^verbatim>\<open>main().catch\<close> reports a rejection and exits with status 1; a
  run that returns ends with status 0.
\<close>

definition node_main :: "unit run \<Rightarrow> effect list \<times> nat" where
  "node_main m =
     (case m of
        (t, Ok u) \<Rightarrow> (t, 0)
      | (t, Throw e) \<Rightarrow> (t @ [Console_error (''Script execution failed: '' @ message e)], 1)
      | (t, Exit n) \<Rightarrow> (t, n))"

fun rpc_calls :: "effect list \<Rightarrow> rpc list" where
  "rpc_calls [] = []"
| "rpc_calls (Rpc c # es) = c # rpc_calls es"
| "rpc_calls (e # es) = rpc_calls es"

fun file_writes :: "effect list \<Rightarrow> (string \<times> file_content) list" where
  "file_writes [] = []"
| "file_writes (Fs_write p c # es) = (p, c) # file_writes es"
| "file_writes (e # es) = file_writes es"

fun is_mintTo :: "rpc \<Rightarrow> bool" where
  "is_mintTo (MintTo account n) = True"
| "is_mintTo c = False"

text \<open>The files present after the writes of a trace; a later write replaces an earlier one.\<close>

definition files_after :: "effect list \<Rightarrow> (string \<rightharpoonup> file_content)" where
  "files_after t = map_of (rev (file_writes t))"

section \<open>Configuration, credentials and the environment\<close>

record config =
  cfg_network :: "string \<Rightarrow> string option"
  cfg_total_supply :: nat
  cfg_decimals :: nat
  cfg_mint_authority_public_key :: string
  cfg_sol_amount :: nat
  cfg_glowmin_amount :: nat
  cfg_transaction_fee :: nat
  cfg_lock_period :: "nat option"
  cfg_raydium_program_id :: string

record metadata =
  md_name :: string
  md_symbol :: string
  md_website :: string
  md_collection_name :: string

text \<open>A file of the keypair directory: missing, present but unusable, or a keypair.\<close>

datatype keyfile = Absent | Unreadable js_error | Keyfile pubkey

text \<open>The object \<^verbatim>\<open>keypairs\<close>: property name to keypair, here the keypair's public key.\<close>

type_synonym keypairs = "string \<rightharpoonup> pubkey"

record env =
  config_file :: "js_error + config"
  metadata_file :: "js_error + metadata"
  key_file :: "string \<Rightarrow> keyfile"
  new_Connection :: "string \<Rightarrow> js_error option"
  new_PublicKey :: "string \<Rightarrow> js_error + pubkey"
  new_Transaction :: "js_error option"
  getVersion_result :: "js_error option"
  getSlot_result :: "js_error option"
  getParsedAccountInfo_result :: "js_error + bool"
  getBalance_result :: "js_error + nat"
  getAssociatedTokenAddress_result :: "js_error + pubkey"
  getTokenAccountBalance_result :: "js_error + string"
  createMint_result :: "js_error + pubkey"
  getOrCreateAssociatedTokenAccount_result :: "nat \<Rightarrow> js_error + pubkey"
  mintTo_result :: "nat \<Rightarrow> js_error + string"
  setAuthority_result :: "js_error option"
  createMetadataAccountV3_result :: "js_error + string"
  deployments_dir_exists :: bool
  mkdirSync_result :: "js_error option"
  writeFileSync_result :: "js_error option"
  Date_now :: nat
  new_Date :: nat

text \<open>Reading \<^verbatim>\<open>keypairs.<key>.publicKey\<close> throws when the keypair was not loaded.\<close>

definition publicKey_of :: "keypairs \<Rightarrow> string \<Rightarrow> pubkey run" where
  "publicKey_of kp key = (case kp key of None \<Rightarrow> throw (cannot_read ''publicKey'') | Some k \<Rightarrow> ok k)"

text \<open>One \<^verbatim>\<open>if (fs.existsSync(path)) keypairs.<key> = Keypair.fromSecretKey(...)\<close>.\<close>

definition load_key :: "keyfile \<Rightarrow> string \<Rightarrow> keypairs \<Rightarrow> keypairs run" where
  "load_key f key kp =
     (case f of
        Absent \<Rightarrow> ok kp
      | Unreadable e \<Rightarrow> throw e
      | Keyfile k \<Rightarrow> ok (kp(key \<mapsto> k)))"

definition loadConfig :: "env \<Rightarrow> config run" where
  "loadConfig env =
     (case config_file env of
        Inl e \<Rightarrow> andThen (emit (Console_error (''Failed to load configuration: '' @ message e)))
                   (\<lambda>u. process_exit 1)
      | Inr c \<Rightarrow> ok c)"

definition createConnection :: "env \<Rightarrow> config \<Rightarrow> string \<Rightarrow> unit run" where
  "createConnection env cfg network =
     (case cfg_network cfg network of
        None \<Rightarrow> andThen (emit (Console_error
                    (''Network '' @ quoted network @ '' not found in configuration'')))
                  (\<lambda>u. process_exit 1)
      | Some url \<Rightarrow> (case new_Connection env url of Some e \<Rightarrow> throw e | None \<Rightarrow> ok ()))"

text \<open>The constructors' default parameter: \<^verbatim>\<open>network = 'devnet'\<close> replaces \<^verbatim>\<open>undefined\<close>.\<close>

definition network_or_default :: "string option \<Rightarrow> string" where
  "network_or_default n = (case n of None \<Rightarrow> ''devnet'' | Some v \<Rightarrow> v)"

text \<open>The path \<^verbatim>\<open>../deployments/<kind>-<network>-<Date.now()>.json\<close>.\<close>

definition deployments_dir :: string where
  "deployments_dir = ''../deployments''"

definition infoPath :: "string \<Rightarrow> string \<Rightarrow> nat \<Rightarrow> string" where
  "infoPath kind network now =
     deployments_dir @ ''/'' @ kind @ ''-'' @ network @ ''-'' @ toString now @ ''.json''"

definition ensure_deployments_dir :: "env \<Rightarrow> unit run" where
  "ensure_deployments_dir env =
     (if \<not> deployments_dir_exists env then ext_unit (Fs_mkdir deployments_dir) (mkdirSync_result env)
      else ok ())"


section \<open>mint-token.js\<close>

record mint_options =
  mo_network :: "string option"
  mo_amount :: "int option"
  mo_dryRun :: bool
  mo_verbose :: bool

definition mint_defaults :: mint_options where
  "mint_defaults = \<lparr>mo_network = Some ''devnet'', mo_amount = None, mo_dryRun = False, mo_verbose = False\<rparr>"

definition mint_flags :: "string list" where
  "mint_flags = [''--network'', ''--amount'', ''--dry-run'', ''--verbose'', ''--help'']"

text \<open>
  The loop of \<^verbatim>\<open>parseArgs\<close>, from the argument at index \<open>i\<close> on. \<^verbatim>\<open>args[++i]\<close> past the
  end is \<^verbatim>\<open>undefined\<close>: the network becomes \<^verbatim>\<open>undefined\<close>, \<^verbatim>\<open>BigInt(undefined)\<close> throws.
  The \<^verbatim>\<open>switch\<close> has no \<^verbatim>\<open>default\<close> case.
\<close>

text \<open>
  \<^verbatim>\<open>
  for (let i = 0; i < args.length; i++) {
    switch (args[i]) {
      case '--network': options.network = args[++i]; break;
      case '--amount':  options.amount = BigInt(args[++i]); break;
      case '--dry-run': options.dryRun = true; break;
      case '--verbose': options.verbose = true; break;
      case '--help':    console.log(...); process.exit(0); break;
    }
  }
  \<close>
\<close>

fun parseArgs_mint_loop :: "string list \<Rightarrow> mint_options \<Rightarrow> mint_options run" where
  "parseArgs_mint_loop [] opts = ok opts"
| "parseArgs_mint_loop (a # rest) opts =
     (if a = ''--network'' then
        (case rest of
           [] \<Rightarrow> ok (opts\<lparr>mo_network := None\<rparr>)
         | v # rest' \<Rightarrow> parseArgs_mint_loop rest' (opts\<lparr>mo_network := Some v\<rparr>))
      else if a = ''--amount'' then
        (case rest of
           [] \<Rightarrow> throw (TypeError ''Cannot convert undefined to a BigInt'')
         | v # rest' \<Rightarrow>
             (case BigInt_of_string v of
                Inl e \<Rightarrow> throw e
              | Inr n \<Rightarrow> parseArgs_mint_loop rest' (opts\<lparr>mo_amount := Some n\<rparr>)))
      else if a = ''--dry-run'' then parseArgs_mint_loop rest (opts\<lparr>mo_dryRun := True\<rparr>)
      else if a = ''--verbose'' then parseArgs_mint_loop rest (opts\<lparr>mo_verbose := True\<rparr>)
      else if a = ''--help'' then
        andThen (emit (Console_log ''Usage: node mint-token.js [options]'')) (\<lambda>u. process_exit 0)
      else parseArgs_mint_loop rest opts)"

definition parseArgs_mint :: "string list \<Rightarrow> mint_options run" where
  "parseArgs_mint args = parseArgs_mint_loop args mint_defaults"

record minter =
  m_network :: string
  m_config :: config
  m_keypairs :: keypairs

definition loadKeypairs_mint :: "env \<Rightarrow> keypairs run" where
  "loadKeypairs_mint env =
     tryCatch
       (andThen (load_key (key_file env ''mint-authority.json'') ''mintAuthority'' Map.empty) (\<lambda>kp.
          load_key (key_file env ''freeze-authority.json'') ''freezeAuthority'' kp))
       (\<lambda>e. andThen (emit (Console_error (''Failed to load keypairs: '' @ message e)))
               (\<lambda>u. process_exit 1))"

definition TokenMinter_new :: "env \<Rightarrow> string option \<Rightarrow> minter run" where
  "TokenMinter_new env network =
     andThen (loadConfig env) (\<lambda>cfg.
     andThen (createConnection env cfg (network_or_default network)) (\<lambda>u.
     andThen (loadKeypairs_mint env) (\<lambda>kp.
       ok \<lparr>m_network = network_or_default network, m_config = cfg, m_keypairs = kp\<rparr>)))"

definition createTokenMint :: "env \<Rightarrow> minter \<Rightarrow> pubkey run" where
  "createTokenMint env this =
     andThen (emit (Console_log ''Creating token mint...'')) (\<lambda>u.
     tryCatch
       (andThen (publicKey_of (m_keypairs this) ''mintAuthority'') (\<lambda>a.
        andThen (publicKey_of (m_keypairs this) ''freezeAuthority'') (\<lambda>f.
          ext (Rpc CreateMint) (createMint_result env))))
       (\<lambda>e. andThen (emit (Console_error (''Failed to create token mint: '' @ message e)))
               (\<lambda>u. throw e)))"

definition createTokenAccount :: "env \<Rightarrow> nat \<Rightarrow> pubkey \<Rightarrow> pubkey run" where
  "createTokenAccount env k owner =
     tryCatch
       (ext (Rpc (GetOrCreateAssociatedTokenAccount owner))
          (getOrCreateAssociatedTokenAccount_result env k))
       (\<lambda>e. andThen (emit (Console_error
                 (''Failed to create token account for '' @ owner @ '': '' @ message e)))
               (\<lambda>u. throw e))"

text \<open>\<open>k\<close> counts the calls of \<^verbatim>\<open>mintTokens\<close> in the run, for the environment's answers.\<close>

definition mintTokens :: "env \<Rightarrow> nat \<Rightarrow> pubkey \<Rightarrow> int \<Rightarrow> (pubkey \<times> string) run" where
  "mintTokens env k to amount =
     tryCatch
       (andThen (createTokenAccount env k to) (\<lambda>tokenAccount.
        andThen (ext (Rpc (MintTo tokenAccount amount)) (mintTo_result env k)) (\<lambda>signature.
          ok (tokenAccount, signature))))
       (\<lambda>e. andThen (emit (Console_error (''Failed to mint tokens to '' @ to @ '': '' @ message e)))
               (\<lambda>u. throw e))"

text \<open>
  \<^verbatim>\<open>
  calculateDistributions() {
    const totalSupply = this.config.token.total_supply;
    return [
      { name: 'Liquidity Pool', amount: BigInt(Math.floor(totalSupply * 0.4)),
        recipient: this.keypairs.mintAuthority.publicKey, purpose: ... },
      { name: 'Community',      amount: BigInt(Math.floor(totalSupply * 0.3)),  ... },
      { name: 'Team',           amount: BigInt(Math.floor(totalSupply * 0.15)), ... },
      { name: 'Marketing',      amount: BigInt(Math.floor(totalSupply * 0.1)),  ... },
      { name: 'Reserve',        amount: BigInt(Math.floor(totalSupply * 0.05)), ... } ];
  }
  \<close>
  The pure part takes the total supply and the recipient; \<open>calculateDistributions_of\<close> adds
  the read of \<^verbatim>\<open>this.keypairs.mintAuthority.publicKey\<close>, which can throw.
\<close>

definition calculateDistributions :: "nat \<Rightarrow> pubkey \<Rightarrow> distribution list" where
  "calculateDistributions totalSupply mintAuthority =
     [\<lparr>d_name = ''Liquidity Pool'',
       d_amount = BigInt (Math_floor (js_times totalSupply d_0_4)),
       d_recipient = mintAuthority, d_purpose = ''Initial liquidity provision''\<rparr>,
      \<lparr>d_name = ''Community'',
       d_amount = BigInt (Math_floor (js_times totalSupply d_0_3)),
       d_recipient = mintAuthority, d_purpose = ''Community rewards and airdrops''\<rparr>,
      \<lparr>d_name = ''Team'',
       d_amount = BigInt (Math_floor (js_times totalSupply d_0_15)),
       d_recipient = mintAuthority, d_purpose = ''Team allocation with vesting''\<rparr>,
      \<lparr>d_name = ''Marketing'',
       d_amount = BigInt (Math_floor (js_times totalSupply d_0_1)),
       d_recipient = mintAuthority, d_purpose = ''Marketing campaigns and partnerships''\<rparr>,
      \<lparr>d_name = ''Reserve'',
       d_amount = BigInt (Math_floor (js_times totalSupply d_0_05)),
       d_recipient = mintAuthority, d_purpose = ''Future development and emergency fund''\<rparr>]"

definition calculateDistributions_of :: "minter \<Rightarrow> distribution list run" where
  "calculateDistributions_of this =
     andThen (publicKey_of (m_keypairs this) ''mintAuthority'') (\<lambda>pk.
       ok (calculateDistributions (cfg_total_supply (m_config this)) pk))"

definition showDistributionPlan :: "distribution list \<Rightarrow> unit run" where
  "showDistributionPlan distributions =
     (Console_log ''Token Distribution Plan:'' #
        map (\<lambda>d. Console_log (d_name d @ '' Amount: '' @ toString (nat (d_amount d)) @ '' tokens''))
          distributions,
      Ok ())"

definition step_succeeded :: "distribution \<Rightarrow> pubkey \<Rightarrow> string \<Rightarrow> step_result" where
  "step_succeeded d tokenAccount signature =
     \<lparr>sr_distribution = d, sr_tokenAccount = Some tokenAccount,
      sr_signature = Some signature, sr_error = None\<rparr>"

definition step_failed :: "distribution \<Rightarrow> js_error \<Rightarrow> step_result" where
  "step_failed d e =
     \<lparr>sr_distribution = d, sr_tokenAccount = None, sr_signature = None,
      sr_error = Some (message e)\<rparr>"

text \<open>The \<^verbatim>\<open>for ... of\<close> loop of \<^verbatim>\<open>distributeTokens\<close>, with its \<^verbatim>\<open>results\<close> array.\<close>

text \<open>
  \<^verbatim>\<open>
  for (const distribution of distributions) {
    try {
      const result = await this.mintTokens(distribution.recipient, distribution.amount);
      results.push({ ...distribution, tokenAccount: ..., signature: result.signature });
      await new Promise(resolve => setTimeout(resolve, 1000));
    } catch (error) {
      console.error(...);
      results.push({ ...distribution, error: error.message });
    }
  }
  this.saveDistributionResults(results);
  \<close>
\<close>

fun distribute_loop :: "env \<Rightarrow> nat \<Rightarrow> distribution list \<Rightarrow> step_result list \<Rightarrow> step_result list run" where
  "distribute_loop env k [] results = ok results"
| "distribute_loop env k (d # ds) results =
     andThen
       (tryCatch
          (andThen (emit (Console_log (''Distributing '' @ d_name d @ ''...''))) (\<lambda>u.
           andThen (mintTokens env k (d_recipient d) (d_amount d)) (\<lambda>(tokenAccount, signature).
           andThen (emit (Sleep 1000)) (\<lambda>u.
             ok (step_succeeded d tokenAccount signature)))))
          (\<lambda>e. andThen (emit (Console_error
                    (''Failed to distribute '' @ d_name d @ '': '' @ message e)))
                  (\<lambda>u. ok (step_failed d e))))
       (\<lambda>r. distribute_loop env (Suc k) ds (results @ [r]))"

text \<open>
  \<^verbatim>\<open>JSON.stringify\<close> throws a TypeError on a BigInt. Every entry of \<^verbatim>\<open>results\<close> spreads its
  distribution, whose \<^verbatim>\<open>amount\<close> is a BigInt, so only an empty array can be serialised.
\<close>

definition JSON_stringify_distributionInfo ::
    "nat \<Rightarrow> string \<Rightarrow> pubkey \<Rightarrow> nat \<Rightarrow> step_result list \<Rightarrow> file_content run" where
  "JSON_stringify_distributionInfo timestamp network mintAddress totalSupply results =
     (if results = [] then ok (Distribution_info timestamp network mintAddress totalSupply results)
      else throw (TypeError ''Do not know how to serialize a BigInt''))"

text \<open>
  \<^verbatim>\<open>
  const infoPath = path.join(__dirname, `../deployments/minting-${this.network}-${Date.now()}.json`);
  const deploymentsDir = path.dirname(infoPath);
  if (!fs.existsSync(deploymentsDir)) { fs.mkdirSync(deploymentsDir, { recursive: true }); }
  fs.writeFileSync(infoPath, JSON.stringify(distributionInfo, null, 2));
  \<close>
  The argument of \<^verbatim>\<open>writeFileSync\<close> is evaluated before the call: when \<^verbatim>\<open>JSON.stringify\<close>
  throws, the directory may have been created and no file is written.
\<close>

definition saveDistributionResults :: "env \<Rightarrow> minter \<Rightarrow> pubkey \<Rightarrow> step_result list \<Rightarrow> unit run" where
  "saveDistributionResults env this mintAddress results =
     andThen (ensure_deployments_dir env) (\<lambda>u.
     andThen (JSON_stringify_distributionInfo (new_Date env) (m_network this) mintAddress
                (cfg_total_supply (m_config this)) results) (\<lambda>text.
     andThen (ext_unit (Fs_write (infoPath ''minting'' (m_network this) (Date_now env)) text)
                (writeFileSync_result env)) (\<lambda>u.
       emit (Console_log ''Distribution results saved''))))"

definition distributeTokens :: "env \<Rightarrow> minter \<Rightarrow> pubkey \<Rightarrow> bool \<Rightarrow> unit run" where
  "distributeTokens env this mintAddress dryRun =
     andThen (emit (Console_log ''Starting token distribution...'')) (\<lambda>u.
     andThen (calculateDistributions_of this) (\<lambda>distributions.
       if dryRun then
         andThen (emit (Console_log ''DRY RUN MODE - No actual minting will occur'')) (\<lambda>u.
           showDistributionPlan distributions)
       else
         andThen (distribute_loop env 0 distributions []) (\<lambda>results.
           saveDistributionResults env this mintAddress results)))"

definition revokeMintAuthority :: "env \<Rightarrow> unit run" where
  "revokeMintAuthority env =
     andThen (emit (Console_log ''Revoking mint authority...'')) (\<lambda>u.
     tryCatch (ext_unit (Rpc SetAuthority) (setAuthority_result env))
       (\<lambda>e. andThen (emit (Console_error (''Failed to revoke mint authority: '' @ message e)))
               (\<lambda>u. throw e)))"

text \<open>
  \<^verbatim>\<open>
  async executeMinting(amount = null, dryRun = false) {
    try {
      await this.createTokenMint();
      if (amount) {
        const result = await this.mintTokens(this.keypairs.mintAuthority.publicKey, BigInt(amount));
        console.log(...);
      } else {
        await this.distributeTokens(dryRun);
      }
      if (!dryRun && !amount) { await this.revokeMintAuthority(); }
      console.log(...);
    } catch (error) {
      console.error('Token minting failed:', error.message);
      process.exit(1);
    }
  }
  \<close>
  \<^verbatim>\<open>amount\<close> is \<^verbatim>\<open>null\<close> (\<open>None\<close>) or a BigInt; \<^verbatim>\<open>if (amount)\<close> takes the first branch exactly
  when it is a BigInt other than \<^verbatim>\<open>0n\<close>.
\<close>

definition executeMinting :: "env \<Rightarrow> minter \<Rightarrow> int option \<Rightarrow> bool \<Rightarrow> unit run" where
  "executeMinting env this amount dryRun =
     tryCatch
       (andThen (createTokenMint env this) (\<lambda>mintAddress.
        andThen
          (case amount of
             Some n \<Rightarrow>
               if n \<noteq> 0 then
                 andThen (emit (Console_log (''Minting tokens...''))) (\<lambda>u.
                 andThen (publicKey_of (m_keypairs this) ''mintAuthority'') (\<lambda>pk.
                 andThen (mintTokens env 0 pk n) (\<lambda>result.
                   emit (Console_log (''Minting completed! Token Account: '' @ fst result
                           @ '' Transaction: '' @ snd result)))))
               else distributeTokens env this mintAddress dryRun
           | None \<Rightarrow> distributeTokens env this mintAddress dryRun) (\<lambda>u.
        andThen (if \<not> dryRun \<and> \<not> truthy_bigint amount then revokeMintAuthority env else ok ()) (\<lambda>u.
          emit (Console_log ''GlowMin token minting completed successfully!'')))))
       (\<lambda>e. andThen (emit (Console_error (''Token minting failed: '' @ message e)))
               (\<lambda>u. process_exit 1))"

definition main_mint :: "env \<Rightarrow> string list \<Rightarrow> effect list \<times> nat" where
  "main_mint env args =
     node_main
       (andThen (parseArgs_mint args) (\<lambda>options.
        andThen (TokenMinter_new env (mo_network options)) (\<lambda>minter.
          executeMinting env minter (mo_amount options) (mo_dryRun options))))"


section \<open>deploy-metadata.js\<close>

record metadata_options =
  do_network :: "string option"
  do_dryRun :: bool
  do_verbose :: bool

definition metadata_defaults :: metadata_options where
  "metadata_defaults = \<lparr>do_network = Some ''devnet'', do_dryRun = False, do_verbose = False\<rparr>"

definition metadata_flags :: "string list" where
  "metadata_flags = [''--network'', ''--dry-run'', ''--verbose'', ''--help'']"

fun parseArgs_metadata_loop :: "string list \<Rightarrow> metadata_options \<Rightarrow> metadata_options run" where
  "parseArgs_metadata_loop [] opts = ok opts"
| "parseArgs_metadata_loop (a # rest) opts =
     (if a = ''--network'' then
        (case rest of
           [] \<Rightarrow> ok (opts\<lparr>do_network := None\<rparr>)
         | v # rest' \<Rightarrow> parseArgs_metadata_loop rest' (opts\<lparr>do_network := Some v\<rparr>))
      else if a = ''--dry-run'' then parseArgs_metadata_loop rest (opts\<lparr>do_dryRun := True\<rparr>)
      else if a = ''--verbose'' then parseArgs_metadata_loop rest (opts\<lparr>do_verbose := True\<rparr>)
      else if a = ''--help'' then
        andThen (emit (Console_log ''Usage: node deploy-metadata.js [options]'')) (\<lambda>u. process_exit 0)
      else parseArgs_metadata_loop rest opts)"

definition parseArgs_metadata :: "string list \<Rightarrow> metadata_options run" where
  "parseArgs_metadata args = parseArgs_metadata_loop args metadata_defaults"

record deployer =
  dp_network :: string
  dp_config :: config
  dp_metadata :: metadata
  dp_keypairs :: keypairs

definition loadMetadata :: "env \<Rightarrow> metadata run" where
  "loadMetadata env =
     (case metadata_file env of
        Inl e \<Rightarrow> andThen (emit (Console_error (''Failed to load metadata: '' @ message e)))
                   (\<lambda>u. process_exit 1)
      | Inr m \<Rightarrow> ok m)"

definition loadKeypairs_metadata :: "env \<Rightarrow> keypairs run" where
  "loadKeypairs_metadata env =
     tryCatch
       (andThen (load_key (key_file env ''mint-authority.json'') ''mintAuthority'' Map.empty) (\<lambda>kp.
          load_key (key_file env ''metadata-authority.json'') ''metadataAuthority'' kp))
       (\<lambda>e. andThen (emit (Console_error (''Failed to load keypairs: '' @ message e)))
               (\<lambda>u. process_exit 1))"

definition MetadataDeployer_new :: "env \<Rightarrow> string option \<Rightarrow> deployer run" where
  "MetadataDeployer_new env network =
     andThen (loadConfig env) (\<lambda>cfg.
     andThen (loadMetadata env) (\<lambda>md.
     andThen (createConnection env cfg (network_or_default network)) (\<lambda>u.
     andThen (loadKeypairs_metadata env) (\<lambda>kp.
       ok \<lparr>dp_network = network_or_default network, dp_config = cfg, dp_metadata = md,
           dp_keypairs = kp\<rparr>))))"

definition checkNetworkHealth :: "env \<Rightarrow> bool run" where
  "checkNetworkHealth env =
     tryCatch
       (andThen (ext_unit (Rpc GetVersion) (getVersion_result env)) (\<lambda>u.
        andThen (ext_unit (Rpc GetSlot) (getSlot_result env)) (\<lambda>u. ok True)))
       (\<lambda>e. andThen (emit (Console_error (''Network health check failed: '' @ message e)))
               (\<lambda>u. ok False))"

definition loaded_or_not :: "keypairs \<Rightarrow> string \<Rightarrow> string" where
  "loaded_or_not kp key = (case kp key of None \<Rightarrow> ''Not loaded'' | Some k \<Rightarrow> k)"

definition showDeploymentPlan :: "deployer \<Rightarrow> unit run" where
  "showDeploymentPlan this =
     ([Console_log ''Deployment Plan:'',
       Console_log (''Mint Authority: '' @ loaded_or_not (dp_keypairs this) ''mintAuthority''),
       Console_log (''Metadata Authority: '' @ loaded_or_not (dp_keypairs this) ''metadataAuthority'')],
      Ok ())"

definition metadataUri :: "deployer \<Rightarrow> string" where
  "metadataUri this = md_website (dp_metadata this) @ ''/metadata/token-metadata.json''"

definition saveDeploymentInfo :: "env \<Rightarrow> deployer \<Rightarrow> string \<Rightarrow> unit run" where
  "saveDeploymentInfo env this metadataAccount =
     andThen (publicKey_of (dp_keypairs this) ''mintAuthority'') (\<lambda>mint.
     andThen (publicKey_of (dp_keypairs this) ''metadataAuthority'') (\<lambda>updateAuthority.
     andThen (ensure_deployments_dir env) (\<lambda>u.
     andThen (ext_unit
                (Fs_write (infoPath ''metadata'' (dp_network this) (Date_now env))
                   (Deployment_info (new_Date env) (dp_network this) metadataAccount mint
                      updateAuthority (metadataUri this)))
                (writeFileSync_result env)) (\<lambda>u.
       emit (Console_log ''Deployment info saved'')))))"

text \<open>
  \<^verbatim>\<open>
  const isHealthy = await this.checkNetworkHealth();
  if (!isHealthy) { console.error(...); process.exit(1); }
  if (dryRun) { this.showDeploymentPlan(); return; }
  try {
    const metadataAccount = await createMetadataAccountV3(this.connection,
      this.keypairs.metadataAuthority, { mint: this.keypairs.mintAuthority.publicKey, ... });
    console.log(... this.keypairs.metadataAuthority.publicKey.toString() ...);
    this.saveDeploymentInfo(metadataAccount);
  } catch (error) { console.error('Metadata deployment failed:', error.message); process.exit(1); }
  \<close>
\<close>

definition deployMetadata :: "env \<Rightarrow> deployer \<Rightarrow> bool \<Rightarrow> unit run" where
  "deployMetadata env this dryRun =
     andThen (checkNetworkHealth env) (\<lambda>isHealthy.
       if \<not> isHealthy then
         andThen (emit (Console_error ''Network health check failed. Aborting deployment.''))
           (\<lambda>u. process_exit 1)
       else if dryRun then
         andThen (emit (Console_log ''DRY RUN MODE - No actual deployment will occur'')) (\<lambda>u.
           showDeploymentPlan this)
       else
         tryCatch
           (andThen (emit (Console_log ''Creating metadata account...'')) (\<lambda>u.
            andThen (publicKey_of (dp_keypairs this) ''mintAuthority'') (\<lambda>mint.
            andThen (ext (Rpc CreateMetadataAccountV3) (createMetadataAccountV3_result env))
              (\<lambda>metadataAccount.
            andThen (publicKey_of (dp_keypairs this) ''metadataAuthority'') (\<lambda>updateAuthority.
            andThen (saveDeploymentInfo env this metadataAccount) (\<lambda>u.
              emit (Console_log ''GlowMin metadata deployment completed successfully!'')))))))
           (\<lambda>e. andThen (emit (Console_error (''Metadata deployment failed: '' @ message e)))
                   (\<lambda>u. process_exit 1)))"

definition main_metadata :: "env \<Rightarrow> string list \<Rightarrow> effect list \<times> nat" where
  "main_metadata env args =
     node_main
       (andThen (parseArgs_metadata args) (\<lambda>options.
        andThen (MetadataDeployer_new env (do_network options)) (\<lambda>deployer.
          deployMetadata env deployer (do_dryRun options))))"

section \<open>create-liquidity.js\<close>

record pool_options =
  po_network :: "string option"
  po_solAmount :: "js_num option"
  po_dryRun :: bool
  po_verbose :: bool

definition pool_defaults :: pool_options where
  "pool_defaults = \<lparr>po_network = Some ''devnet'', po_solAmount = None, po_dryRun = False, po_verbose = False\<rparr>"

definition pool_flags :: "string list" where
  "pool_flags = [''--network'', ''--sol-amount'', ''--dry-run'', ''--verbose'', ''--help'']"

text \<open>\<^verbatim>\<open>parseInt(undefined)\<close> is \<^verbatim>\<open>NaN\<close>.\<close>

fun parseArgs_pool_loop :: "string list \<Rightarrow> pool_options \<Rightarrow> pool_options run" where
  "parseArgs_pool_loop [] opts = ok opts"
| "parseArgs_pool_loop (a # rest) opts =
     (if a = ''--network'' then
        (case rest of
           [] \<Rightarrow> ok (opts\<lparr>po_network := None\<rparr>)
         | v # rest' \<Rightarrow> parseArgs_pool_loop rest' (opts\<lparr>po_network := Some v\<rparr>))
      else if a = ''--sol-amount'' then
        (case rest of
           [] \<Rightarrow> ok (opts\<lparr>po_solAmount := Some NaN\<rparr>)
         | v # rest' \<Rightarrow> parseArgs_pool_loop rest' (opts\<lparr>po_solAmount := Some (parseInt v)\<rparr>))
      else if a = ''--dry-run'' then parseArgs_pool_loop rest (opts\<lparr>po_dryRun := True\<rparr>)
      else if a = ''--verbose'' then parseArgs_pool_loop rest (opts\<lparr>po_verbose := True\<rparr>)
      else if a = ''--help'' then
        andThen (emit (Console_log ''Usage: node create-liquidity.js [options]'')) (\<lambda>u. process_exit 0)
      else parseArgs_pool_loop rest opts)"

definition parseArgs_pool :: "string list \<Rightarrow> pool_options run" where
  "parseArgs_pool args = parseArgs_pool_loop args pool_defaults"

record creator =
  cr_network :: string
  cr_config :: config
  cr_keypairs :: keypairs

definition loadKeypairs_pool :: "env \<Rightarrow> keypairs run" where
  "loadKeypairs_pool env =
     tryCatch
       (andThen (load_key (key_file env ''main-keypair.json'') ''main'' Map.empty) (\<lambda>kp.
          load_key (key_file env ''liquidity-authority.json'') ''liquidityAuthority'' kp))
       (\<lambda>e. andThen (emit (Console_error (''Failed to load keypairs: '' @ message e)))
               (\<lambda>u. process_exit 1))"

definition LiquidityCreator_new :: "env \<Rightarrow> string option \<Rightarrow> creator run" where
  "LiquidityCreator_new env network =
     andThen (loadConfig env) (\<lambda>cfg.
     andThen (createConnection env cfg (network_or_default network)) (\<lambda>u.
     andThen (loadKeypairs_pool env) (\<lambda>kp.
       ok \<lparr>cr_network = network_or_default network, cr_config = cfg, cr_keypairs = kp\<rparr>)))"

definition PublicKey_new :: "env \<Rightarrow> string \<Rightarrow> pubkey run" where
  "PublicKey_new env s = (case new_PublicKey env s of Inl e \<Rightarrow> throw e | Inr pk \<Rightarrow> ok pk)"

definition check_mint_exists :: "env \<Rightarrow> creator \<Rightarrow> unit run" where
  "check_mint_exists env this =
     tryCatch
       (andThen (PublicKey_new env (cfg_mint_authority_public_key (cr_config this))) (\<lambda>pk.
        andThen (ext (Rpc (GetParsedAccountInfo pk)) (getParsedAccountInfo_result env)) (\<lambda>found.
          if \<not> found then throw (Error ''GLOWMIN mint not found'')
          else emit (Console_log ''GLOWMIN mint found''))))
       (\<lambda>e. andThen (emit (Console_error ''GLOWMIN mint not found. Please run mint-token.js first.''))
               (\<lambda>u. process_exit 1))"

text \<open>
  \<^verbatim>\<open>balance < requiredBalance\<close> compares two Numbers; lamport amounts are far below
  \<open>2 ^ 53\<close>, where the sum and the product are exact.
\<close>

definition check_sol_balance :: "env \<Rightarrow> creator \<Rightarrow> unit run" where
  "check_sol_balance env this =
     tryCatch
       (andThen (publicKey_of (cr_keypairs this) ''main'') (\<lambda>pk.
        andThen (ext (Rpc (GetBalance pk)) (getBalance_result env)) (\<lambda>balance.
          let requiredBalance =
                cfg_sol_amount (cr_config this) + cfg_transaction_fee (cr_config this) * 10
          in if balance < requiredBalance then
               andThen (emit (Console_error
                   (''Insufficient SOL balance. Required: '' @ toString requiredBalance
                      @ '' lamports, Available: '' @ toString balance @ '' lamports'')))
                 (\<lambda>u. process_exit 1)
             else emit (Console_log ''Sufficient SOL balance available''))))
       (\<lambda>e. andThen (emit (Console_error (''Failed to check SOL balance: '' @ message e)))
               (\<lambda>u. process_exit 1))"

text \<open>
  \<^verbatim>\<open>tokenBalance.value.amount < requiredTokens.toString()\<close>: both operands are strings, so
  \<^verbatim>\<open><\<close> is the comparison of strings.
\<close>

text \<open>
  \<^verbatim>\<open>
  const tokenBalance = await this.connection.getTokenAccountBalance(tokenAccount);
  const requiredTokens = this.config.raydium.initial_liquidity.glowmin_amount;
  if (tokenBalance.value.amount < requiredTokens.toString()) {
    console.error(`Insufficient GLOWMIN balance. Required: ${requiredTokens}, Available: ...`);
    process.exit(1);
  }
  \<close>
\<close>

definition check_token_balance :: "env \<Rightarrow> creator \<Rightarrow> unit run" where
  "check_token_balance env this =
     tryCatch
       (andThen (PublicKey_new env (cfg_mint_authority_public_key (cr_config this))) (\<lambda>mint.
        andThen (publicKey_of (cr_keypairs this) ''main'') (\<lambda>owner.
        andThen (case getAssociatedTokenAddress_result env of Inl e \<Rightarrow> throw e | Inr a \<Rightarrow> ok a)
          (\<lambda>tokenAccount.
        andThen (ext (Rpc (GetTokenAccountBalance tokenAccount)) (getTokenAccountBalance_result env))
          (\<lambda>amount.
          let requiredTokens = cfg_glowmin_amount (cr_config this)
          in if js_string_less amount (toString requiredTokens) then
               andThen (emit (Console_error
                   (''Insufficient GLOWMIN balance. Required: '' @ toString requiredTokens
                      @ '', Available: '' @ amount)))
                 (\<lambda>u. process_exit 1)
             else emit (Console_log ''Sufficient GLOWMIN balance available''))))))
       (\<lambda>e. andThen (emit (Console_error (''Failed to check GLOWMIN balance: '' @ message e)))
               (\<lambda>u. process_exit 1))"

definition checkPrerequisites :: "env \<Rightarrow> creator \<Rightarrow> unit run" where
  "checkPrerequisites env this =
     andThen (emit (Console_log ''Checking prerequisites...'')) (\<lambda>u.
     andThen (check_mint_exists env this) (\<lambda>u.
     andThen (check_sol_balance env this) (\<lambda>u.
     andThen (check_token_balance env this) (\<lambda>u.
       emit (Console_log ''All prerequisites met'')))))"

text \<open>
  The argument \<^verbatim>\<open>solAmount\<close> of \<^verbatim>\<open>createPool\<close>, \<^verbatim>\<open>addInitialLiquidity\<close> and
  \<^verbatim>\<open>showCreationPlan\<close> only changes the amounts they print; the three calls that stand for
  the pool program are placeholders in the source and make no request.
\<close>

definition createPool :: "env \<Rightarrow> pubkey run" where
  "createPool env =
     andThen (emit (Console_log ''Creating liquidity pool...'')) (\<lambda>u.
     tryCatch
       (andThen (PublicKey_new env ''POOL_ADDRESS_PLACEHOLDER'') (\<lambda>poolAddress.
        andThen (emit (Console_log ''Pool created successfully!'')) (\<lambda>u. ok poolAddress)))
       (\<lambda>e. andThen (emit (Console_error (''Failed to create pool: '' @ message e)))
               (\<lambda>u. throw e)))"

definition addInitialLiquidity :: "env \<Rightarrow> string run" where
  "addInitialLiquidity env =
     andThen (emit (Console_log ''Adding initial liquidity...'')) (\<lambda>u.
     tryCatch
       (andThen (case new_Transaction env of Some e \<Rightarrow> throw e | None \<Rightarrow> ok ()) (\<lambda>u.
        andThen (emit (Console_log ''Initial liquidity added successfully!'')) (\<lambda>u.
          ok ''TRANSACTION_SIGNATURE_PLACEHOLDER'')))
       (\<lambda>e. andThen (emit (Console_error (''Failed to add initial liquidity: '' @ message e)))
               (\<lambda>u. throw e)))"

text \<open>
  \<^verbatim>\<open>this.config.liquidity.lock_period\<close> throws when the configuration has no
  \<^verbatim>\<open>liquidity\<close> section (\<open>None\<close>); \<^verbatim>\<open>toISOString\<close> throws beyond the range of dates.
\<close>

definition lockLiquidity :: "env \<Rightarrow> creator \<Rightarrow> (string \<times> nat) run" where
  "lockLiquidity env this =
     andThen (emit (Console_log ''Locking liquidity...'')) (\<lambda>u.
     tryCatch
       (case cfg_lock_period (cr_config this) of
          None \<Rightarrow> throw (cannot_read ''lock_period'')
        | Some lockPeriod \<Rightarrow>
            let lockEndTime = Date_now env div 1000 + lockPeriod
            in if 8640000000000000 < lockEndTime * 1000 then throw (RangeError ''Invalid time value'')
               else andThen (emit (Console_log ''Liquidity locked successfully!'')) (\<lambda>u.
                      ok (''LOCK_TRANSACTION_SIGNATURE_PLACEHOLDER'', lockEndTime)))
       (\<lambda>e. andThen (emit (Console_error (''Failed to lock liquidity: '' @ message e)))
               (\<lambda>u. throw e)))"

definition showCreationPlan :: "creator \<Rightarrow> unit run" where
  "showCreationPlan this =
     andThen (emit (Console_log ''Liquidity Pool Creation Plan:'')) (\<lambda>u.
       case cfg_lock_period (cr_config this) of
         None \<Rightarrow> throw (cannot_read ''lock_period'')
       | Some lockPeriod \<Rightarrow>
           emit (Console_log (''Raydium Program: '' @ cfg_raydium_program_id (cr_config this))))"

definition savePoolInfo :: "env \<Rightarrow> creator \<Rightarrow> pubkey \<Rightarrow> string \<Rightarrow> string \<times> nat \<Rightarrow> unit run" where
  "savePoolInfo env this poolAddress liquiditySignature lockResult =
     andThen (ensure_deployments_dir env) (\<lambda>u.
     andThen (ext_unit
                (Fs_write (infoPath ''pool'' (cr_network this) (Date_now env))
                   (Pool_info (new_Date env) (cr_network this) poolAddress
                      (cfg_sol_amount (cr_config this)) (cfg_glowmin_amount (cr_config this))
                      liquiditySignature (fst lockResult) (snd lockResult)
                      (cfg_raydium_program_id (cr_config this))))
                (writeFileSync_result env)) (\<lambda>u.
       emit (Console_log ''Pool info saved'')))"

text \<open>
  \<^verbatim>\<open>
  try {
    await this.checkPrerequisites();
    if (dryRun) { this.showCreationPlan(solAmount); return; }
    const poolAddress = await this.createPool(solAmount);
    const liquidityResult = await this.addInitialLiquidity(solAmount);
    const lockResult = await this.lockLiquidity();
    this.savePoolInfo(poolAddress, liquidityResult, lockResult);
  } catch (error) {
    console.error('Pool creation failed:', error.message);
    process.exit(1);
  }
  \<close>
\<close>

definition executePoolCreation :: "env \<Rightarrow> creator \<Rightarrow> js_num option \<Rightarrow> bool \<Rightarrow> unit run" where
  "executePoolCreation env this solAmount dryRun =
     tryCatch
       (andThen (checkPrerequisites env this) (\<lambda>u.
          if dryRun then
            andThen (emit (Console_log ''DRY RUN MODE - No actual pool creation will occur'')) (\<lambda>u.
              showCreationPlan this)
          else
            andThen (createPool env) (\<lambda>poolAddress.
            andThen (addInitialLiquidity env) (\<lambda>liquidityResult.
            andThen (lockLiquidity env this) (\<lambda>lockResult.
            andThen (savePoolInfo env this poolAddress liquidityResult lockResult) (\<lambda>u.
              emit (Console_log ''GlowMin liquidity pool creation completed successfully!'')))))))
       (\<lambda>e. andThen (emit (Console_error (''Pool creation failed: '' @ message e)))
               (\<lambda>u. process_exit 1))"

definition main_pool :: "env \<Rightarrow> string list \<Rightarrow> effect list \<times> nat" where
  "main_pool env args =
     node_main
       (andThen (parseArgs_pool args) (\<lambda>options.
        andThen (LiquidityCreator_new env (po_network options)) (\<lambda>creator.
          executePoolCreation env creator (po_solAmount options) (po_dryRun options))))"


section \<open>Notions used to state the properties\<close>

text \<open>
  The allocation as the specification words it: the floor of the exact product of the
  total supply and the fraction.
\<close>

definition spec_allocation :: "nat \<Rightarrow> rat \<Rightarrow> int" where
  "spec_allocation T fraction = \<lfloor>of_nat T * fraction\<rfloor>"

text \<open>The parser, started on \<open>xs\<close>, has consumed all of \<open>xs\<close> and expects a flag next.\<close>

fun at_flag_position :: "string list \<Rightarrow> string list \<Rightarrow> bool" where
  "at_flag_position vflags [] = True"
| "at_flag_position vflags (a # rest) =
     (if a \<in> set vflags then
        (case rest of [] \<Rightarrow> False | v # rest' \<Rightarrow> at_flag_position vflags rest')
      else at_flag_position vflags rest)"

text \<open>The keypair that \<^verbatim>\<open>loadKeypairs\<close> takes from a file, if any.\<close>

definition loaded :: "keyfile \<Rightarrow> pubkey option" where
  "loaded f = (case f of Keyfile k \<Rightarrow> Some k | Absent \<Rightarrow> None | Unreadable e \<Rightarrow> None)"

text \<open>\<open>contains p s\<close>: the string \<open>p\<close> occurs in \<open>s\<close>.\<close>

fun contains :: "string \<Rightarrow> string \<Rightarrow> bool" where
  "contains p [] = (p = [])"
| "contains p (c # cs) = (take (length p) (c # cs) = p \<or> contains p cs)"

fun console_errors :: "effect list \<Rightarrow> string list" where
  "console_errors [] = []"
| "console_errors (Console_error m # es) = m # console_errors es"
| "console_errors (e # es) = console_errors es"

subsection \<open>A concrete environment in which every external call succeeds\<close>

definition devnet_config :: config where
  "devnet_config =
     \<lparr>cfg_network = [''devnet'' \<mapsto> ''https://api.devnet.solana.com''],
      cfg_total_supply = 100000000,
      cfg_decimals = 9,
      cfg_mint_authority_public_key = ''FdaWtGGTfnWq8MU9ToCGBTQspuXhxyGpRjqY7M55V62n'',
      cfg_sol_amount = 1000000000,
      cfg_glowmin_amount = 10,
      cfg_transaction_fee = 5000,
      cfg_lock_period = Some 63072000,
      cfg_raydium_program_id = ''675kPX9MHTjS2zt1qfr1NYHuzeLXfQM9H24wFSUt1Mp8''\<rparr>"

definition devnet_metadata :: metadata where
  "devnet_metadata =
     \<lparr>md_name = ''GlowMin'', md_symbol = ''GLOWMIN'',
      md_website = ''https://glowmin.alfanestlabs.xyz'', md_collection_name = ''GlowMin''\<rparr>"

definition devnet_env :: env where
  "devnet_env =
     \<lparr>config_file = Inr devnet_config,
      metadata_file = Inr devnet_metadata,
      key_file = (\<lambda>name. Keyfile (''key:'' @ name)),
      new_Connection = (\<lambda>url. None),
      new_PublicKey = (\<lambda>s. Inr s),
      new_Transaction = None,
      getVersion_result = None,
      getSlot_result = None,
      getParsedAccountInfo_result = Inr True,
      getBalance_result = Inr 5000000000,
      getAssociatedTokenAddress_result = Inr ''AssociatedTokenAddress'',
      getTokenAccountBalance_result = Inr ''40000000'',
      createMint_result = Inr ''MintAddress'',
      getOrCreateAssociatedTokenAccount_result = (\<lambda>k. Inr ''TokenAccount''),
      mintTo_result = (\<lambda>k. Inr ''Signature''),
      setAuthority_result = None,
      createMetadataAccountV3_result = Inr ''MetadataAccount'',
      deployments_dir_exists = False,
      mkdirSync_result = None,
      writeFileSync_result = None,
      Date_now = 1700000000000,
      new_Date = 1700000000000\<rparr>"

definition devnet_minter :: minter where
  "devnet_minter =
     \<lparr>m_network = ''devnet'', m_config = devnet_config,
      m_keypairs = [''mintAuthority'' \<mapsto> ''key:mint-authority.json'',
                    ''freezeAuthority'' \<mapsto> ''key:freeze-authority.json'']\<rparr>"

definition devnet_deployer :: deployer where
  "devnet_deployer =
     \<lparr>dp_network = ''devnet'', dp_config = devnet_config, dp_metadata = devnet_metadata,
      dp_keypairs = [''mintAuthority'' \<mapsto> ''key:mint-authority.json'',
                     ''metadataAuthority'' \<mapsto> ''key:metadata-authority.json'']\<rparr>"

definition devnet_creator :: creator where
  "devnet_creator =
     \<lparr>cr_network = ''devnet'', cr_config = devnet_config,
      cr_keypairs = [''main'' \<mapsto> ''key:main-keypair.json'',
                     ''liquidityAuthority'' \<mapsto> ''key:liquidity-authority.json'']\<rparr>"

subsection \<open>Environments that differ from it in one answer\<close>

definition third_fails_env :: env where
  "third_fails_env =
     devnet_env\<lparr>mintTo_result :=
       (\<lambda>k. if k = 2 then Inl (Error ''Transaction simulation failed'') else Inr ''Signature'')\<rparr>"

definition low_token_balance_env :: env where
  "low_token_balance_env = devnet_env\<lparr>getTokenAccountBalance_result := Inr ''9''\<rparr>"

definition high_token_balance_env :: env where
  "high_token_balance_env = devnet_env\<lparr>getTokenAccountBalance_result := Inr ''100''\<rparr>"

definition creator_requiring_20 :: creator where
  "creator_requiring_20 = devnet_creator\<lparr>cr_config := devnet_config\<lparr>cfg_glowmin_amount := 20\<rparr>\<rparr>"

definition add_liquidity_fails_env :: env where
  "add_liquidity_fails_env = devnet_env\<lparr>new_Transaction := Some (Error ''Transaction failed'')\<rparr>"

definition create_pool_fails_env :: env where
  "create_pool_fails_env =
     devnet_env\<lparr>new_PublicKey :=
       (\<lambda>s. if s = ''POOL_ADDRESS_PLACEHOLDER'' then Inl (Error ''Invalid public key input'')
            else Inr s)\<rparr>"

definition creator_without_lock_period :: creator where
  "creator_without_lock_period =
     devnet_creator\<lparr>cr_config := devnet_config\<lparr>cfg_lock_period := None\<rparr>\<rparr>"

definition dir_exists_env :: env where
  "dir_exists_env = devnet_env\<lparr>deployments_dir_exists := True\<rparr>"

definition no_main_keypair_env :: env where
  "no_main_keypair_env =
     devnet_env\<lparr>key_file :=
       (\<lambda>name. if name = ''main-keypair.json'' then Absent else Keyfile (''key:'' @ name))\<rparr>"

definition no_mint_authority_env :: env where
  "no_mint_authority_env =
     devnet_env\<lparr>key_file :=
       (\<lambda>name. if name = ''mint-authority.json'' then Absent else Keyfile (''key:'' @ name))\<rparr>"

section \<open>Rounding to 53 bits: bounds\<close>

text \<open>
  \<open>round53 P\<close> keeps the 53 leading bits of \<open>P\<close>: with \<open>s = bit_length P - 53\<close> it is a
  multiple of \<open>2 ^ s\<close> at distance at most \<open>2 ^ s div 2\<close> from \<open>P\<close>. For a fraction \<open>a / b\<close>
  whose double is \<open>M / 2 ^ k\<close>, the product \<open>T * M\<close> lies within \<open>T * d / b\<close> of
  \<open>(T * a / b) * 2 ^ k\<close>, where \<open>d\<close> is the error of the literal; as long as both distances
  stay below the gap to the next integer, flooring the rounded product gives
  \<open>(T * a) div b\<close>.
\<close>

lemma bit_length_less: "n < 2 ^ bit_length n"
proof (induction n rule: bit_length.induct)
  case (1 n)
  show ?case
  proof (cases "n = 0")
    case True
    then show ?thesis by (simp add: bit_length.simps)
  next
    case False
    with 1 have "n div 2 < 2 ^ bit_length (n div 2)" by simp
    then have "n < 2 * 2 ^ bit_length (n div 2)" by linarith
    with False show ?thesis by (simp add: bit_length.simps [of n])
  qed
qed

lemma bit_length_ge: "0 < n \<Longrightarrow> 2 ^ (bit_length n - 1) \<le> n"
proof (induction n rule: bit_length.induct)
  case (1 n)
  show ?case
  proof (cases "n div 2 = 0")
    case True
    with 1(2) have "n = 1" by linarith
    then show ?thesis by (simp add: bit_length.simps)
  next
    case False
    then have pos: "0 < n div 2" by simp
    with 1 have ih: "2 ^ (bit_length (n div 2) - 1) \<le> n div 2" by simp
    have bl: "bit_length n = Suc (bit_length (n div 2))"
      using 1(2) by (simp add: bit_length.simps [of n])
    have "0 < bit_length (n div 2)"
      using pos by (simp add: bit_length.simps [of "n div 2"])
    then have "(2::nat) ^ (bit_length n - 1) = 2 * 2 ^ (bit_length (n div 2) - 1)"
      using bl by (cases "bit_length (n div 2)") simp_all
    with ih show ?thesis by linarith
  qed
qed

lemma bit_length_le: "n < 2 ^ m \<Longrightarrow> bit_length n \<le> m"
proof (rule ccontr)
  assume lt: "n < 2 ^ m" and "\<not> bit_length n \<le> m"
  then have "m \<le> bit_length n - 1" by simp
  then have "(2::nat) ^ m \<le> 2 ^ (bit_length n - 1)" by (rule power_increasing) simp
  moreover have "0 < n" using \<open>\<not> bit_length n \<le> m\<close> by (cases "n = 0") (simp_all add: bit_length.simps)
  ultimately show False using bit_length_ge [of n] lt by linarith
qed

lemma bit_length_gt: "2 ^ m \<le> n \<Longrightarrow> m < bit_length n"
proof (rule ccontr)
  assume le: "2 ^ m \<le> n" and "\<not> m < bit_length n"
  then have "(2::nat) ^ bit_length n \<le> 2 ^ m" by (intro power_increasing) simp_all
  with le bit_length_less [of n] show False by linarith
qed

lemma round53_lower:
  assumes "A \<le> P" and "2 ^ (bit_length P - 53) dvd A"
  shows "A \<le> round53 P"
proof -
  define s where "s = bit_length P - 53"
  from assms(2) obtain j where A: "A = 2 ^ s * j" unfolding s_def by (auto simp: dvd_def)
  have "j \<le> P div 2 ^ s"
    using assms(1) A by (metis div_le_mono nonzero_mult_div_cancel_left power_not_zero zero_neq_numeral)
  then have "A \<le> (P div 2 ^ s) * 2 ^ s" using A by (simp add: mult.commute)
  moreover have "(P div 2 ^ s) * 2 ^ s \<le> (P div 2 ^ s + 1) * 2 ^ s" by simp
  ultimately show ?thesis
    using assms(1) unfolding round53_def Let_def s_def [symmetric] by auto
qed

lemma round53_upper: "round53 P \<le> P + 2 ^ (bit_length P - 53) div 2"
proof -
  define s where "s = bit_length P - 53"
  define q where "q = P div 2 ^ s"
  define r where "r = P mod 2 ^ s"
  have P: "P = q * 2 ^ s + r"
    using div_mult_mod_eq [of P "2 ^ s"] by (simp add: q_def r_def)
  have rd: "round53 P =
      (if s = 0 then P
       else if 2 ^ (s - 1) < r \<or> (r = 2 ^ (s - 1) \<and> odd q) then (q + 1) * 2 ^ s
       else q * 2 ^ s)"
    unfolding round53_def Let_def s_def q_def r_def ..
  show ?thesis
  proof (cases "s = 0")
    case True
    then show ?thesis using rd s_def by simp
  next
    case False
    then obtain s' where s': "s = Suc s'" by (cases s) auto
    have half: "(2::nat) ^ s div 2 = 2 ^ s'" by (simp add: s')
    have down: "q * 2 ^ s \<le> P + 2 ^ s'" using P by simp
    have up: "(q + 1) * 2 ^ s \<le> P + 2 ^ s'" if "2 ^ s' \<le> r"
    proof -
      have "(q + 1) * 2 ^ s = q * 2 ^ s + 2 * 2 ^ s'"
        by (simp add: s' algebra_simps)
      also have "\<dots> \<le> q * 2 ^ s + r + 2 ^ s'" using that by simp
      also have "\<dots> = P + 2 ^ s'" using P by simp
      finally show ?thesis .
    qed
    have "round53 P \<le> P + 2 ^ s'"
    proof (cases "2 ^ (s - 1) < r \<or> (r = 2 ^ (s - 1) \<and> odd q)")
      case True
      then have "2 ^ s' \<le> r" by (auto simp: s')
      moreover have "round53 P = (q + 1) * 2 ^ s"
        using rd False True by (simp only: if_True if_False)
      ultimately show ?thesis using up by simp
    next
      case F2: False
      have "round53 P = q * 2 ^ s"
        using rd False F2 by (simp only: if_False)
      with down show ?thesis by simp
    qed
    then show ?thesis using half s_def by simp
  qed
qed

lemma round53_floor:
  assumes "n * 2 ^ k \<le> P" and "bit_length P - 53 \<le> k"
    and "P + 2 ^ (bit_length P - 53) div 2 < (n + 1) * 2 ^ k"
  shows "round53 P div 2 ^ k = n"
proof -
  have "2 ^ (bit_length P - 53) dvd n * (2::nat) ^ k"
    using assms(2) by (simp add: le_imp_power_dvd)
  with assms(1) have lo: "n * 2 ^ k \<le> round53 P" by (rule round53_lower)
  have hi: "round53 P < (n + 1) * 2 ^ k"
    using round53_upper [of P] assms(3) by linarith
  from lo hi show ?thesis
    by (metis (no_types) add.commute div_nat_eqI mult.commute plus_1_eq_Suc)
qed

lemma round53_hit:
  assumes "P < B" and "2 ^ (bit_length P - 53) dvd B" and "0 < bit_length P - 53"
    and "2 * (B - P) < 2 ^ (bit_length P - 53)"
  shows "round53 P = B"
proof -
  define s where "s = bit_length P - 53"
  have "0 < s" using assms(3) by (simp add: s_def)
  then obtain s' where s': "s = Suc s'" by (cases s) auto
  from assms(2) obtain j where B: "B = 2 ^ s * j" unfolding s_def by (auto simp: dvd_def)
  define q where "q = P div 2 ^ s"
  define r where "r = P mod 2 ^ s"
  have P: "P = q * 2 ^ s + r"
    using div_mult_mod_eq [of P "2 ^ s"] by (simp add: q_def r_def)
  have r: "r < 2 ^ s" by (simp add: r_def)
  have e: "2 * (B - P) < 2 ^ s" using assms(4) s_def by simp
  have "q < j"
  proof (rule ccontr)
    assume "\<not> q < j"
    then have "j * 2 ^ s \<le> q * 2 ^ s" by simp
    with P B assms(1) show False by (simp add: mult.commute)
  qed
  moreover have "j \<le> q + 1"
  proof (rule ccontr)
    assume "\<not> j \<le> q + 1"
    then have "q + 2 \<le> j" by simp
    then have "(q + 2) * 2 ^ s \<le> j * 2 ^ s" by (rule mult_le_mono1)
    then have "q * 2 ^ s + 2 * 2 ^ s \<le> B" using B by (simp add: algebra_simps)
    with P r e show False by linarith
  qed
  ultimately have j: "j = q + 1" by simp
  have Bq: "B = q * 2 ^ s + 2 ^ s" using B j by (simp add: algebra_simps)
  have "2 ^ s' < r" using P Bq e s' by simp
  then show ?thesis
    unfolding round53_def Let_def s_def [symmetric] q_def [symmetric] r_def [symmetric]
    using s' Bq by (simp add: algebra_simps)
qed

text \<open>
  The two cases of a literal: its double lies above the fraction (0.4, 0.1, 0.05) or below
  it (0.3, 0.15). Below, a product that should be an integer is reached by rounding up.
\<close>

lemma half_ulp_le:
  assumes "bit_length P \<le> 54 + e"
  shows "(2::nat) ^ (bit_length P - 53) div 2 \<le> 2 ^ e"
proof (cases "bit_length P - 53")
  case 0
  then show ?thesis by simp
next
  case (Suc s')
  with assms have "s' \<le> e" by simp
  then have "(2::nat) ^ s' \<le> 2 ^ e" by (rule power_increasing) simp
  with Suc show ?thesis by simp
qed

lemma mul_floor_above:
  fixes T M a b d k e :: nat
  assumes bM: "b * M = a * 2 ^ k + d" and b: "0 < b"
    and len: "bit_length (T * M) \<le> 54 + e" and ek: "e < k"
    and sz: "T * d + b * 2 ^ e < 2 ^ k"
  shows "round53 (T * M) div 2 ^ k = (T * a) div b"
proof -
  define n where "n = (T * a) div b"
  define \<rho> where "\<rho> = (T * a) mod b"
  define h where "h = (2::nat) ^ (bit_length (T * M) - 53) div 2"
  have Ta: "T * a = n * b + \<rho>"
    using div_mult_mod_eq [of "T * a" b] by (simp add: n_def \<rho>_def)
  have \<rho>: "\<rho> + 1 \<le> b" using b by (simp add: \<rho>_def Suc_le_eq)
  have h: "h \<le> 2 ^ e" unfolding h_def using len by (rule half_ulp_le)
  have "b * (T * M) = T * (b * M)" by (simp add: mult_ac)
  also have "\<dots> = T * (a * 2 ^ k + d)" by (simp only: bM)
  also have "\<dots> = (T * a) * 2 ^ k + T * d" by (simp add: algebra_simps)
  also have "\<dots> = b * (n * 2 ^ k) + \<rho> * 2 ^ k + T * d" by (simp add: Ta algebra_simps)
  finally have bP: "b * (T * M) = b * (n * 2 ^ k) + \<rho> * 2 ^ k + T * d" .
  have lo: "n * 2 ^ k \<le> T * M"
  proof -
    have "b * (n * 2 ^ k) \<le> b * (T * M)" using bP by simp
    with b show ?thesis by simp
  qed
  have hi: "T * M + h < (n + 1) * 2 ^ k"
  proof -
    have "\<rho> * 2 ^ k + 2 ^ k \<le> b * 2 ^ k"
      using mult_le_mono1 [OF \<rho>, of "2 ^ k"] by (simp add: algebra_simps)
    moreover have "b * h \<le> b * 2 ^ e" using h by (rule mult_le_mono2)
    moreover have "b * (T * M + h) = b * (T * M) + b * h" by (rule distrib_left)
    moreover have "b * ((n + 1) * 2 ^ k) = b * (n * 2 ^ k) + b * 2 ^ k"
      by (simp add: algebra_simps)
    ultimately have "b * (T * M + h) < b * ((n + 1) * 2 ^ k)"
      using bP sz by linarith
    then show ?thesis using b by simp
  qed
  have "bit_length (T * M) - 53 \<le> k" using len ek by simp
  with lo hi show ?thesis unfolding n_def h_def by (intro round53_floor) simp_all
qed

lemma mul_floor_below:
  fixes T M a b d k e :: nat
  assumes bM: "b * M + d = a * 2 ^ k" and b: "0 < b" and d: "0 < d" and a: "0 < a" "a < b"
    and M: "2 ^ 52 \<le> M"
    and len: "bit_length (T * M) \<le> 54 + e" and ek: "e < k"
    and sz: "b * 2 ^ e < 2 ^ k" and Td: "T * d \<le> 2 ^ k" and db: "4 * d \<le> b"
  shows "round53 (T * M) div 2 ^ k = (T * a) div b"
proof -
  define n where "n = (T * a) div b"
  define \<rho> where "\<rho> = (T * a) mod b"
  define s where "s = bit_length (T * M) - 53"
  define h where "h = (2::nat) ^ s div 2"
  have Ta: "T * a = n * b + \<rho>"
    using div_mult_mod_eq [of "T * a" b] by (simp add: n_def \<rho>_def)
  have \<rho>: "\<rho> + 1 \<le> b" using b by (simp add: \<rho>_def Suc_le_eq)
  have h: "h \<le> 2 ^ e" unfolding h_def s_def using len by (rule half_ulp_le)
  have sk: "s \<le> k" using len ek by (simp add: s_def)
  have "b * (T * M) + T * d = T * (b * M + d)" by (simp add: algebra_simps)
  also have "\<dots> = T * (a * 2 ^ k)" by (simp only: bM)
  also have "\<dots> = (T * a) * 2 ^ k" by (simp add: algebra_simps)
  also have "\<dots> = b * (n * 2 ^ k) + \<rho> * 2 ^ k" by (simp add: Ta algebra_simps)
  finally have bP: "b * (T * M) + T * d = b * (n * 2 ^ k) + \<rho> * 2 ^ k" .
  have hi: "T * M + h < (n + 1) * 2 ^ k"
  proof -
    have "\<rho> * 2 ^ k + 2 ^ k \<le> b * 2 ^ k"
      using mult_le_mono1 [OF \<rho>, of "2 ^ k"] by (simp add: algebra_simps)
    moreover have "b * h \<le> b * 2 ^ e" using h by (rule mult_le_mono2)
    moreover have "b * (T * M + h) = b * (T * M) + b * h" by (rule distrib_left)
    moreover have "b * ((n + 1) * 2 ^ k) = b * (n * 2 ^ k) + b * 2 ^ k"
      by (simp add: algebra_simps)
    moreover have "b * (T * M) \<le> b * (n * 2 ^ k) + \<rho> * 2 ^ k" using bP by linarith
    ultimately have "b * (T * M + h) < b * ((n + 1) * 2 ^ k)"
      using sz by linarith
    then show ?thesis using b by simp
  qed
  show ?thesis
  proof (cases "\<rho> = 0")
    case False
    then have "2 ^ k \<le> \<rho> * 2 ^ k" by simp
    with Td bP have "b * (n * 2 ^ k) \<le> b * (T * M)" by linarith
    with b have lo: "n * 2 ^ k \<le> T * M" by simp
    from lo sk hi show ?thesis unfolding n_def h_def s_def by (intro round53_floor) simp_all
  next
    case True
    show ?thesis
    proof (cases "T = 0")
      case T0: True
      then show ?thesis by (simp add: round53_def bit_length.simps)
    next
      case Tpos: False
      have "T \<noteq> 1"
      proof
        assume "T = 1"
        with True a show False by (simp add: \<rho>_def)
      qed
      with Tpos have T2: "2 \<le> T" by simp
      define B where "B = n * 2 ^ k"
      have bPB: "b * (T * M) + T * d = b * B" using bP True by (simp add: B_def)
      have "0 < T * d" using Tpos d by simp
      with bPB have "b * (T * M) < b * B" by linarith
      then have PB: "T * M < B" using b by simp
      have "2 * 2 ^ 52 \<le> T * M" using T2 M by (rule mult_le_mono)
      then have "(2::nat) ^ 53 \<le> T * M" by simp
      then have "53 < bit_length (T * M)" by (rule bit_length_gt)
      then have spos: "0 < s" and bl: "bit_length (T * M) = s + 53" by (simp_all add: s_def)
      have "T * 2 ^ 52 \<le> T * M" using M by simp
      also have "T * M < 2 ^ (s + 53)" using bit_length_less [of "T * M"] bl by simp
      finally have "T * 2 ^ 52 < 2 * 2 ^ s * 2 ^ 52" by (simp add: power_add)
      then have Ts: "T < 2 * 2 ^ s" by simp
      have "2 * (b * (B - T * M)) = 2 * (T * d)"
        using bPB PB by (simp add: diff_mult_distrib2)
      also have "\<dots> < 2 * (2 * 2 ^ s * d)" using Ts d by simp
      also have "\<dots> = (4 * d) * 2 ^ s" by simp
      also have "\<dots> \<le> b * 2 ^ s" using db by (rule mult_le_mono1)
      finally have "b * (2 * (B - T * M)) < b * 2 ^ s" by (simp add: mult_ac)
      then have e: "2 * (B - T * M) < 2 ^ s" using b by simp
      have dv: "2 ^ s dvd B" using sk by (simp add: B_def le_imp_power_dvd)
      have "round53 (T * M) = B"
        using PB dv spos e unfolding s_def by (rule round53_hit)
      then show ?thesis by (simp add: B_def n_def)
    qed
  qed
qed

text \<open>The five literals, for total supplies below \<open>3 * 2 ^ 50\<close>.\<close>

lemma len_105:
  assumes "T < 3377699720527872"
  shows "bit_length (T * 7205759403792794) \<le> 54 + 51"
proof -
  have "T * 7205759403792794 \<le> 3377699720527872 * 7205759403792794"
    using assms by (intro mult_le_mono1) simp
  also have "\<dots> < (2::nat) ^ 105" by simp
  finally show ?thesis using bit_length_le [of _ 105] by simp
qed

lemma len_104:
  assumes "T < 3377699720527872"
  shows "bit_length (T * 5404319552844595) \<le> 54 + 50"
proof -
  have "T * 5404319552844595 \<le> 3377699720527872 * 5404319552844595"
    using assms by (intro mult_le_mono1) simp
  also have "\<dots> < (2::nat) ^ 104" by simp
  finally show ?thesis using bit_length_le [of _ 104] by simp
qed

lemma floor_0_4:
  assumes "T < 3377699720527872"
  shows "Math_floor (js_times T d_0_4) = (T * 2) div 5"
  unfolding Math_floor_def js_times_def d_0_4_def fst_conv snd_conv
  using len_105 [OF assms] assms
  by (intro mul_floor_above [where d = 2 and e = 51]) simp_all

lemma floor_0_1:
  assumes "T < 3377699720527872"
  shows "Math_floor (js_times T d_0_1) = T div 10"
  unfolding Math_floor_def js_times_def d_0_1_def fst_conv snd_conv
  using mul_floor_above [where T = T and M = 7205759403792794 and a = 1 and b = 10 and d = 4
      and k = 56 and e = 51] len_105 [OF assms] assms
  by simp

lemma floor_0_05:
  assumes "T < 3377699720527872"
  shows "Math_floor (js_times T d_0_05) = T div 20"
  unfolding Math_floor_def js_times_def d_0_05_def fst_conv snd_conv
  using mul_floor_above [where T = T and M = 7205759403792794 and a = 1 and b = 20 and d = 8
      and k = 57 and e = 51] len_105 [OF assms] assms
  by simp

lemma floor_0_3:
  assumes "T < 3377699720527872"
  shows "Math_floor (js_times T d_0_3) = (T * 3) div 10"
  unfolding Math_floor_def js_times_def d_0_3_def fst_conv snd_conv
  using len_104 [OF assms] assms
  by (intro mul_floor_below [where d = 2 and e = 50]) simp_all

lemma floor_0_15:
  assumes "T < 3377699720527872"
  shows "Math_floor (js_times T d_0_15) = (T * 3) div 20"
  unfolding Math_floor_def js_times_def d_0_15_def fst_conv snd_conv
  using len_104 [OF assms] assms
  by (intro mul_floor_below [where d = 4 and e = 50]) simp_all

lemma div_bounds: "0 < (c::nat) \<Longrightarrow> c * (x div c) \<le> x \<and> x < c * (x div c) + c"
proof -
  assume c: "0 < c"
  have "x = c * (x div c) + x mod c" by simp
  moreover have "x mod c < c" using c by simp
  ultimately show ?thesis by linarith
qed

lemma sumbound:
  fixes T :: nat
  defines "S \<equiv> (T * 2) div 5 + (T * 3) div 10 + (T * 3) div 20 + T div 10 + T div 20"
  shows "T \<le> S + 4 \<and> S \<le> T"
proof -
  note b = div_bounds [of 5 "T * 2"] div_bounds [of 10 "T * 3"] div_bounds [of 20 "T * 3"]
    div_bounds [of 10 T] div_bounds [of 20 T]
  show ?thesis unfolding S_def using b by linarith
qed

lemmas double_eval = Math_floor_def js_times_def round53_def bit_length.simps Let_def BigInt_def
  d_0_4_def d_0_3_def d_0_15_def d_0_1_def d_0_05_def

lemma spec_allocation_div:
  "0 < b \<Longrightarrow> spec_allocation T (of_nat a / of_nat b) = int ((T * a) div b)"
proof -
  assume "0 < b"
  have "(of_nat T :: rat) * (of_nat a / of_nat b) = of_nat (T * a) / of_nat b" by simp
  then show ?thesis unfolding spec_allocation_def by (simp only: floor_divide_of_nat_eq)
qed

text \<open>The three outcomes of rounding: exact, up, down.\<close>

lemma round53_cases:
  fixes P :: nat
  defines "s \<equiv> bit_length P - 53"
  shows "(s = 0 \<and> round53 P = P) \<or>
     (0 < s \<and> round53 P = (P div 2 ^ s + 1) * 2 ^ s \<and> 2 ^ s \<le> 2 * (P mod 2 ^ s)) \<or>
     (0 < s \<and> round53 P = (P div 2 ^ s) * 2 ^ s \<and> 2 * (P mod 2 ^ s) \<le> 2 ^ s)"
proof (cases "s = 0")
  case True
  then show ?thesis unfolding round53_def Let_def s_def by simp
next
  case False
  then obtain s' where s': "s = Suc s'" by (cases s) auto
  have rd: "round53 P =
      (if 2 ^ s' < P mod 2 ^ s \<or> (P mod 2 ^ s = 2 ^ s' \<and> odd (P div 2 ^ s))
       then (P div 2 ^ s + 1) * 2 ^ s else (P div 2 ^ s) * 2 ^ s)"
    unfolding round53_def Let_def s_def [symmetric] using False by (simp add: s')
  show ?thesis
  proof (cases "2 ^ s' < P mod 2 ^ s \<or> (P mod 2 ^ s = 2 ^ s' \<and> odd (P div 2 ^ s))")
    case True
    then have "2 ^ s \<le> 2 * (P mod 2 ^ s)" by (auto simp: s')
    moreover have "round53 P = (P div 2 ^ s + 1) * 2 ^ s" using rd True by (simp only: if_True)
    ultimately show ?thesis using False by simp
  next
    case F: False
    then have "2 * (P mod 2 ^ s) \<le> 2 ^ s" by (auto simp: s')
    moreover have "round53 P = (P div 2 ^ s) * 2 ^ s" using rd F by (simp only: if_False)
    ultimately show ?thesis using False by simp
  qed
qed

text \<open>Rounding moves a product to a multiple of the unit in the last place: a multiple that lies
  less than half a unit below the product is not passed, one that lies less than half a unit
  above it is reached.\<close>

lemma grid_le_arith:
  fixes q j w r :: nat
  assumes "2 * (q * w + r) < 2 * (j * w) + w"
  shows "q \<le> j" and "w \<le> 2 * r \<Longrightarrow> q + 1 \<le> j"
proof -
  show qj: "q \<le> j"
  proof (rule ccontr)
    assume "\<not> q \<le> j"
    then have "j + 1 \<le> q" by simp
    then have "(j + 1) * w \<le> q * w" by (rule mult_le_mono1)
    then have "j * w + w \<le> q * w" by (simp add: algebra_simps)
    with assms show False by simp
  qed
  assume r: "w \<le> 2 * r"
  have "q \<noteq> j"
  proof
    assume "q = j"
    with assms r show False by simp
  qed
  with qj show "q + 1 \<le> j" by simp
qed

lemma grid_ge_arith:
  fixes q j w r :: nat
  assumes "2 * (j * w) < 2 * (q * w + r) + w" and r: "r < w"
  shows "j \<le> q + 1" and "2 * r \<le> w \<Longrightarrow> j \<le> q"
proof -
  show jq: "j \<le> q + 1"
  proof (rule ccontr)
    assume "\<not> j \<le> q + 1"
    then have "q + 2 \<le> j" by simp
    then have "(q + 2) * w \<le> j * w" by (rule mult_le_mono1)
    then have "q * w + 2 * w \<le> j * w" by (simp add: algebra_simps)
    with assms show False by simp
  qed
  assume r': "2 * r \<le> w"
  have "j \<noteq> q + 1"
  proof
    assume "j = q + 1"
    then have "j * w = q * w + w" by (simp add: algebra_simps)
    with assms r' show False by simp
  qed
  with jq show "j \<le> q" by simp
qed

lemma round53_le_grid:
  assumes dv: "2 ^ (bit_length P - 53) dvd G"
    and lt: "2 * P < 2 * G + 2 ^ (bit_length P - 53)"
  shows "round53 P \<le> G"
proof -
  define s where "s = bit_length P - 53"
  define q where "q = P div 2 ^ s"
  define r where "r = P mod 2 ^ s"
  from dv obtain j where G: "G = j * 2 ^ s" unfolding s_def by (auto simp: dvd_def mult.commute)
  have P: "P = q * 2 ^ s + r"
    using div_mult_mod_eq [of P "2 ^ s"] by (simp add: q_def r_def)
  have "2 * P < 2 * G + 2 ^ s" using lt by (simp add: s_def)
  then have lt': "2 * (q * 2 ^ s + r) < 2 * (j * 2 ^ s) + 2 ^ s"
    by (simp only: P [symmetric] G [symmetric])
  note ar = grid_le_arith [OF lt']
  from round53_cases [of P] show ?thesis
    unfolding s_def [symmetric] q_def [symmetric] r_def [symmetric]
  proof (elim disjE conjE)
    assume "s = 0" "round53 P = P"
    with lt show ?thesis by (simp add: s_def)
  next
    assume up: "round53 P = (q + 1) * 2 ^ s" and r: "2 ^ s \<le> 2 * r"
    from r have "q + 1 \<le> j" by (rule ar(2))
    then have "(q + 1) * 2 ^ s \<le> j * 2 ^ s" by (rule mult_le_mono1)
    with up G show ?thesis by simp
  next
    assume dn: "round53 P = q * 2 ^ s"
    have "q * 2 ^ s \<le> j * 2 ^ s" using ar(1) by (rule mult_le_mono1)
    with dn G show ?thesis by simp
  qed
qed

lemma round53_ge_grid:
  assumes dv: "2 ^ (bit_length P - 53) dvd G"
    and lt: "2 * G < 2 * P + 2 ^ (bit_length P - 53)"
  shows "G \<le> round53 P"
proof -
  define s where "s = bit_length P - 53"
  define q where "q = P div 2 ^ s"
  define r where "r = P mod 2 ^ s"
  from dv obtain j where G: "G = j * 2 ^ s" unfolding s_def by (auto simp: dvd_def mult.commute)
  have P: "P = q * 2 ^ s + r"
    using div_mult_mod_eq [of P "2 ^ s"] by (simp add: q_def r_def)
  have r: "r < 2 ^ s" by (simp add: r_def)
  have "2 * G < 2 * P + 2 ^ s" using lt by (simp add: s_def)
  then have lt': "2 * (j * 2 ^ s) < 2 * (q * 2 ^ s + r) + 2 ^ s"
    by (simp only: P [symmetric] G [symmetric])
  note ar = grid_ge_arith [OF lt' r]
  from round53_cases [of P] show ?thesis
    unfolding s_def [symmetric] q_def [symmetric] r_def [symmetric]
  proof (elim disjE conjE)
    assume "s = 0" "round53 P = P"
    with lt show ?thesis by (simp add: s_def)
  next
    assume up: "round53 P = (q + 1) * 2 ^ s"
    have "j * 2 ^ s \<le> (q + 1) * 2 ^ s" using ar(1) by (rule mult_le_mono1)
    with up G show ?thesis by simp
  next
    assume dn: "round53 P = q * 2 ^ s" and r': "2 * r \<le> 2 ^ s"
    from r' have "j \<le> q" by (rule ar(2))
    then have "j * 2 ^ s \<le> q * 2 ^ s" by (rule mult_le_mono1)
    with dn G show ?thesis by simp
  qed
qed

lemma bit_length_eq:
  assumes "2 ^ (52 + s) \<le> P" and "P < 2 ^ (53 + s)"
  shows "bit_length P - 53 = s"
proof -
  have "52 + s < bit_length P" using assms(1) by (rule bit_length_gt)
  moreover have "bit_length P \<le> 53 + s" using assms(2) by (rule bit_length_le)
  ultimately show ?thesis by simp
qed

lemma T_below_ulp:
  assumes "2 ^ 52 \<le> M"
  shows "T < 2 * 2 ^ (bit_length (T * M) - 53)"
proof -
  have "T * 2 ^ 52 \<le> T * M" using assms by simp
  also have "T * M < 2 ^ bit_length (T * M)" by (rule bit_length_less)
  also have "(2::nat) ^ bit_length (T * M) \<le> 2 ^ (53 + (bit_length (T * M) - 53))"
    by (rule power_increasing) simp_all
  finally have "T * 2 ^ 52 < (2 * 2 ^ (bit_length (T * M) - 53)) * 2 ^ 52"
    by (simp add: power_add)
  then show ?thesis by simp
qed

text \<open>An amount is never below the floor of the exact product, as long as the unit in the last
  place of the rounded product does not exceed the divisor \<open>2 ^ k\<close>.\<close>

lemma amount_ge_floor_above:
  fixes T M a b d k :: nat
  assumes bM: "b * M = a * 2 ^ k + d" and b: "0 < b"
    and sk: "bit_length (T * M) - 53 \<le> k"
  shows "(T * a) div b \<le> round53 (T * M) div 2 ^ k"
proof -
  define n where "n = (T * a) div b"
  have "n * b \<le> T * a" by (simp add: n_def)
  then have "(n * b) * 2 ^ k \<le> (T * a) * 2 ^ k" by (rule mult_le_mono1)
  also have "\<dots> \<le> T * (a * 2 ^ k + d)" by (simp add: algebra_simps)
  also have "\<dots> = T * (b * M)" by (simp only: bM)
  finally have "b * (n * 2 ^ k) \<le> b * (T * M)" by (simp add: mult_ac)
  with b have lo: "n * 2 ^ k \<le> T * M" by simp
  have "2 ^ (bit_length (T * M) - 53) dvd n * (2::nat) ^ k"
    using sk by (simp add: le_imp_power_dvd)
  with lo have "n * 2 ^ k \<le> round53 (T * M)" by (rule round53_lower)
  then have "(n * 2 ^ k) div 2 ^ k \<le> round53 (T * M) div 2 ^ k" by (rule div_le_mono)
  then show ?thesis by (simp add: n_def)
qed

lemma amount_ge_floor_below:
  fixes T M a b d k :: nat
  assumes bM: "b * M + d = a * 2 ^ k" and b: "0 < b" and M: "2 ^ 52 \<le> M"
    and db: "4 * d \<le> b" and sk: "bit_length (T * M) - 53 \<le> k"
  shows "(T * a) div b \<le> round53 (T * M) div 2 ^ k"
proof -
  define n where "n = (T * a) div b"
  define s where "s = bit_length (T * M) - 53"
  have "n * b \<le> T * a" by (simp add: n_def)
  then have "(n * b) * 2 ^ k \<le> (T * a) * 2 ^ k" by (rule mult_le_mono1)
  also have "\<dots> = T * (a * 2 ^ k)" by (simp add: algebra_simps)
  also have "\<dots> = T * (b * M + d)" by (simp only: bM)
  also have "\<dots> = b * (T * M) + T * d" by (simp add: algebra_simps)
  finally have bG: "b * (n * 2 ^ k) \<le> b * (T * M) + T * d" by (simp add: mult_ac)
  have Ts: "T < 2 * 2 ^ s" unfolding s_def using M by (rule T_below_ulp)
  have "T * (4 * d) \<le> T * b" using db by (rule mult_le_mono2)
  then have "4 * (T * d) \<le> b * T" by (simp add: mult_ac)
  also have "b * T < b * (2 * 2 ^ s)" using Ts b by simp
  finally have "2 * (T * d) < b * 2 ^ s" by simp
  with bG have "b * (2 * (n * 2 ^ k)) < b * (2 * (T * M) + 2 ^ s)"
    by (simp add: algebra_simps)
  then have lt: "2 * (n * 2 ^ k) < 2 * (T * M) + 2 ^ s" using b by simp
  have "2 ^ s dvd n * (2::nat) ^ k"
    using sk by (simp add: s_def le_imp_power_dvd)
  then have "n * 2 ^ k \<le> round53 (T * M)"
    using lt unfolding s_def by (rule round53_ge_grid)
  then have "(n * 2 ^ k) div 2 ^ k \<le> round53 (T * M) div 2 ^ k" by (rule div_le_mono)
  then show ?thesis by (simp add: n_def)
qed

text \<open>The five literals, for total supplies below \<open>3 * 2 ^ 53\<close>.\<close>

lemma len_108:
  assumes "T < 27021597764222976"
  shows "bit_length (T * 7205759403792794) \<le> 108"
proof -
  have "T * 7205759403792794 \<le> 27021597764222976 * 7205759403792794"
    using assms by (intro mult_le_mono1) simp
  also have "\<dots> < (2::nat) ^ 108" by simp
  finally show ?thesis by (rule bit_length_le)
qed

lemma len_107:
  assumes "T < 27021597764222976"
  shows "bit_length (T * 5404319552844595) \<le> 107"
proof -
  have "T * 5404319552844595 \<le> 27021597764222976 * 5404319552844595"
    using assms by (intro mult_le_mono1) simp
  also have "\<dots> < (2::nat) ^ 107" by simp
  finally show ?thesis by (rule bit_length_le)
qed

lemma ge_0_1:
  assumes "T < 27021597764222976"
  shows "T div 10 \<le> Math_floor (js_times T d_0_1)"
  unfolding Math_floor_def js_times_def d_0_1_def fst_conv snd_conv
  using amount_ge_floor_above [where T = T and M = 7205759403792794 and a = 1 and b = 10
      and d = 4 and k = 56] len_108 [OF assms]
  by simp

lemma ge_0_05:
  assumes "T < 27021597764222976"
  shows "T div 20 \<le> Math_floor (js_times T d_0_05)"
  unfolding Math_floor_def js_times_def d_0_05_def fst_conv snd_conv
  using amount_ge_floor_above [where T = T and M = 7205759403792794 and a = 1 and b = 20
      and d = 8 and k = 57] len_108 [OF assms]
  by simp

lemma ge_0_3:
  assumes "T < 27021597764222976"
  shows "(T * 3) div 10 \<le> Math_floor (js_times T d_0_3)"
  unfolding Math_floor_def js_times_def d_0_3_def fst_conv snd_conv
  using amount_ge_floor_below [where T = T and M = 5404319552844595 and a = 3 and b = 10
      and d = 2 and k = 54] len_107 [OF assms]
  by simp

lemma ge_0_15:
  assumes "T < 27021597764222976"
  shows "(T * 3) div 20 \<le> Math_floor (js_times T d_0_15)"
  unfolding Math_floor_def js_times_def d_0_15_def fst_conv snd_conv
  using amount_ge_floor_below [where T = T and M = 5404319552844595 and a = 3 and b = 20
      and d = 4 and k = 55] len_107 [OF assms]
  by simp

lemma ge_0_4:
  assumes "T < 27021597764222976"
  shows "(T * 2) div 5 \<le> Math_floor (js_times T d_0_4)"
proof (cases "bit_length (T * 7205759403792794) - 53 \<le> 54")
  case True
  then show ?thesis
    unfolding Math_floor_def js_times_def d_0_4_def fst_conv snd_conv
    using amount_ge_floor_above [where T = T and M = 7205759403792794 and a = 2 and b = 5
        and d = 2 and k = 54]
    by simp
next
  case False
  with len_108 [OF assms] have s: "bit_length (T * 7205759403792794) - 53 = 55" by simp
  define P where "P = T * 7205759403792794"
  define n where "n = (T * 2) div 5"
  define G where "G = (if even n then n else n + 1) * (18014398509481984::nat)"
  have T0: "0 < T" using False by (cases "T = 0") (simp_all add: bit_length.simps [of 0])
  have "5 * n \<le> T * 2" by (simp add: n_def)
  then have lo: "n * 18014398509481984 < P" using T0 by (simp add: P_def)
  have dv: "2 ^ 55 dvd G"
  proof -
    have "even (if even n then n else n + 1)" by simp
    then obtain m where "(if even n then n else n + 1) = 2 * m" by (rule evenE)
    then have "G = 2 ^ 55 * m" by (simp add: G_def)
    then show ?thesis by simp
  qed
  have "2 * G < 2 * P + 2 ^ 55" using lo by (simp add: G_def)
  with dv have "G \<le> round53 P"
    unfolding s [symmetric] P_def by (intro round53_ge_grid)
  moreover have "n * 18014398509481984 \<le> G" by (simp add: G_def)
  ultimately have "n * 18014398509481984 \<le> round53 P" by simp
  then have "(n * 18014398509481984) div 18014398509481984 \<le> round53 P div 18014398509481984"
    by (rule div_le_mono)
  then show ?thesis
    unfolding Math_floor_def js_times_def d_0_4_def fst_conv snd_conv
    by (simp add: n_def P_def)
qed

text \<open>Below \<open>5 * 2 ^ 51\<close> both products round by at most \<open>2 ^ 52\<close>, which bounds the sum of the five
  amounts by the total supply. The products for 0.4, 0.1 and 0.05 share one mantissa, as do those
  for 0.3 and 0.15, and \<open>11 * 7205759403792794 + 12 * 5404319552844595 = 2 ^ 57 + 2\<close>.\<close>

lemma sum_upper_small:
  assumes "T < 11258999068426240"
  shows "Math_floor (js_times T d_0_4) + Math_floor (js_times T d_0_3)
       + Math_floor (js_times T d_0_15) + Math_floor (js_times T d_0_1)
       + Math_floor (js_times T d_0_05) \<le> T"
proof -
  define RA where "RA = round53 (T * 7205759403792794)"
  define RB where "RB = round53 (T * 5404319552844595)"
  have "T * 7205759403792794 \<le> 11258999068426239 * 7205759403792794"
    using assms by (intro mult_le_mono1) simp
  also have "\<dots> < (2::nat) ^ 106" by simp
  finally have "bit_length (T * 7205759403792794) \<le> 54 + 52"
    using bit_length_le [of _ 106] by simp
  then have hA: "(2::nat) ^ (bit_length (T * 7205759403792794) - 53) div 2 \<le> 2 ^ 52"
    by (rule half_ulp_le)
  have "T * 5404319552844595 \<le> 11258999068426239 * 5404319552844595"
    using assms by (intro mult_le_mono1) simp
  also have "\<dots> < (2::nat) ^ 106" by simp
  finally have "bit_length (T * 5404319552844595) \<le> 54 + 52"
    using bit_length_le [of _ 106] by simp
  then have hB: "(2::nat) ^ (bit_length (T * 5404319552844595) - 53) div 2 \<le> 2 ^ 52"
    by (rule half_ulp_le)
  have A: "RA \<le> T * 7205759403792794 + 4503599627370496"
    using round53_upper [of "T * 7205759403792794"] hA by (simp add: RA_def)
  have B: "RB \<le> T * 5404319552844595 + 4503599627370496"
    using round53_upper [of "T * 5404319552844595"] hB by (simp add: RB_def)
  have d: "18014398509481984 * (RA div 18014398509481984) \<le> RA"
    "18014398509481984 * (RB div 18014398509481984) \<le> RB"
    "36028797018963968 * (RB div 36028797018963968) \<le> RB"
    "72057594037927936 * (RA div 72057594037927936) \<le> RA"
    "144115188075855872 * (RA div 144115188075855872) \<le> RA"
    by simp_all
  have "RA div 18014398509481984 + RB div 18014398509481984 + RB div 36028797018963968
      + RA div 72057594037927936 + RA div 144115188075855872 \<le> T"
    using A B d assms by linarith
  then show ?thesis
    unfolding Math_floor_def js_times_def d_0_4_def d_0_3_def d_0_15_def d_0_1_def d_0_05_def
      fst_conv snd_conv RA_def RB_def by simp
qed

text \<open>From \<open>5 * 2 ^ 51\<close> on, the total supply is written \<open>T = 20 * q + r\<close>; the two rounded products
  are bounded by multiples \<open>2 ^ 54 * (8 * q + U)\<close> and \<open>2 ^ 53 * (12 * q + V)\<close> of their units,
  and the five quotients by \<open>20 * q\<close> plus a term in \<open>U\<close> and \<open>V\<close>.\<close>

lemma sum5:
  fixes a1 a2 a3 a4 a5 q r U u4 u8 v2 v4 :: nat
  assumes "a1 \<le> 8 * q + U" "a2 \<le> 6 * q + v2" "a3 \<le> 3 * q + v4" "a4 \<le> 2 * q + u4"
    "a5 \<le> q + u8" "U + u4 + u8 + v2 + v4 \<le> r"
  shows "a1 + a2 + a3 + a4 + a5 \<le> 20 * q + r"
  using assms by linarith

lemma grid_sum:
  fixes RA RB q U V r :: nat
  assumes A: "RA \<le> 18014398509481984 * (8 * q + U)"
    and B: "RB \<le> 9007199254740992 * (12 * q + V)"
    and s: "U + U div 4 + U div 8 + V div 2 + V div 4 \<le> r"
  shows "RA div 18014398509481984 + RB div 18014398509481984 + RB div 36028797018963968
       + RA div 72057594037927936 + RA div 144115188075855872 \<le> 20 * q + r"
proof -
  define x where "x = 8 * q + U"
  define y where "y = 12 * q + V"
  have "RA div 18014398509481984 \<le> (18014398509481984 * x) div 18014398509481984"
    using A unfolding x_def by (rule div_le_mono)
  then have a1: "RA div 18014398509481984 \<le> x" by simp
  have "RA div (18014398509481984 * 4) \<le> (18014398509481984 * x) div (18014398509481984 * 4)"
    using A unfolding x_def by (rule div_le_mono)
  also have "\<dots> = x div 4" by (rule div_mult_mult1) simp
  finally have a4: "RA div 72057594037927936 \<le> x div 4" by simp
  have "RA div (18014398509481984 * 8) \<le> (18014398509481984 * x) div (18014398509481984 * 8)"
    using A unfolding x_def by (rule div_le_mono)
  also have "\<dots> = x div 8" by (rule div_mult_mult1) simp
  finally have a5: "RA div 144115188075855872 \<le> x div 8" by simp
  have "RB div (9007199254740992 * 2) \<le> (9007199254740992 * y) div (9007199254740992 * 2)"
    using B unfolding y_def by (rule div_le_mono)
  also have "\<dots> = y div 2" by (rule div_mult_mult1) simp
  finally have a2: "RB div 18014398509481984 \<le> y div 2" by simp
  have "RB div (9007199254740992 * 4) \<le> (9007199254740992 * y) div (9007199254740992 * 4)"
    using B unfolding y_def by (rule div_le_mono)
  also have "\<dots> = y div 4" by (rule div_mult_mult1) simp
  finally have a3: "RB div 36028797018963968 \<le> y div 4" by simp
  have x4: "x div 4 = 2 * q + U div 4" unfolding x_def by simp
  have x8: "x div 8 = q + U div 8" unfolding x_def by simp
  have y2: "y div 2 = 6 * q + V div 2" unfolding y_def by simp
  have y4: "y div 4 = 3 * q + V div 4" unfolding y_def by simp
  from a1 [unfolded x_def] a2 [unfolded y2] a3 [unfolded y4] a4 [unfolded x4] a5 [unfolded x8] s
  show ?thesis by (rule sum5)
qed

lemma RA_grid:
  fixes T q r U :: nat
  assumes T: "T = 20 * q + r"
    and dv: "2 ^ (bit_length (T * 7205759403792794) - 53) dvd 18014398509481984 * (8 * q + U)"
    and c: "4 * T + 4 * r * 18014398509481984
            < 10 * U * 18014398509481984 + 5 * 2 ^ (bit_length (T * 7205759403792794) - 53)"
  shows "round53 (T * 7205759403792794) \<le> 18014398509481984 * (8 * q + U)"
proof -
  define w :: nat where "w = 2 ^ (bit_length (T * 7205759403792794) - 53)"
  have "4 * T + 4 * r * 18014398509481984 < 10 * U * 18014398509481984 + 5 * w"
    using c by (simp add: w_def)
  then have "2 * (T * 7205759403792794) < 2 * (18014398509481984 * (8 * q + U)) + w"
    unfolding T by (simp add: algebra_simps)
  then show ?thesis unfolding w_def using dv by (intro round53_le_grid)
qed

lemma RB_grid:
  fixes T q r V :: nat
  assumes T: "T = 20 * q + r"
    and dv: "2 ^ (bit_length (T * 5404319552844595) - 53) dvd 9007199254740992 * (12 * q + V)"
    and c: "12 * r * 9007199254740992
            < 4 * T + 20 * V * 9007199254740992 + 10 * 2 ^ (bit_length (T * 5404319552844595) - 53)"
  shows "round53 (T * 5404319552844595) \<le> 9007199254740992 * (12 * q + V)"
proof -
  define w :: nat where "w = 2 ^ (bit_length (T * 5404319552844595) - 53)"
  have "12 * r * 9007199254740992 < 4 * T + 20 * V * 9007199254740992 + 10 * w"
    using c by (simp add: w_def)
  then have "2 * (T * 5404319552844595) < 2 * (9007199254740992 * (12 * q + V)) + w"
    unfolding T by (simp add: algebra_simps)
  then show ?thesis unfolding w_def using dv by (intro round53_le_grid)
qed

lemma amounts_le_grid:
  fixes T r U V sA sB :: nat
  assumes r: "T mod 20 = r"
    and sA: "bit_length (T * 7205759403792794) - 53 = sA"
    and sB: "bit_length (T * 5404319552844595) - 53 = sB"
    and dA: "sA \<le> 54 \<or> (sA = 55 \<and> even U)"
    and dB: "sB \<le> 53 \<or> (sB = 54 \<and> even V)"
    and cA: "4 * T + 4 * r * 18014398509481984 < 10 * U * 18014398509481984 + 5 * 2 ^ sA"
    and cB: "12 * r * 9007199254740992 < 4 * T + 20 * V * 9007199254740992 + 10 * 2 ^ sB"
    and s: "U + U div 4 + U div 8 + V div 2 + V div 4 \<le> r"
  shows "Math_floor (js_times T d_0_4) + Math_floor (js_times T d_0_3)
       + Math_floor (js_times T d_0_15) + Math_floor (js_times T d_0_1)
       + Math_floor (js_times T d_0_05) \<le> T"
proof -
  define q where "q = T div 20"
  have T: "T = 20 * q + r" unfolding q_def r [symmetric] by simp
  have "(2::nat) ^ sA dvd 18014398509481984 * (8 * q + U)"
  proof (cases "sA \<le> 54")
    case True
    then have "(2::nat) ^ sA dvd 2 ^ 54" by (rule le_imp_power_dvd)
    then have "(2::nat) ^ sA dvd 2 ^ 54 * (8 * q + U)" by (rule dvd_mult2)
    then show ?thesis by simp
  next
    case False
    with dA have "sA = 55" "even U" by simp_all
    then obtain u where "U = 2 * u" by (auto elim: evenE)
    then have "18014398509481984 * (8 * q + U) = 2 ^ 55 * (4 * q + u)" by simp
    then show ?thesis using \<open>sA = 55\<close> by simp
  qed
  then have A: "round53 (T * 7205759403792794) \<le> 18014398509481984 * (8 * q + U)"
    using cA unfolding sA [symmetric] by (intro RA_grid [OF T])
  have "(2::nat) ^ sB dvd 9007199254740992 * (12 * q + V)"
  proof (cases "sB \<le> 53")
    case True
    then have "(2::nat) ^ sB dvd 2 ^ 53" by (rule le_imp_power_dvd)
    then have "(2::nat) ^ sB dvd 2 ^ 53 * (12 * q + V)" by (rule dvd_mult2)
    then show ?thesis by simp
  next
    case False
    with dB have "sB = 54" "even V" by simp_all
    then obtain v where "V = 2 * v" by (auto elim: evenE)
    then have "9007199254740992 * (12 * q + V) = 2 ^ 54 * (6 * q + v)" by simp
    then show ?thesis using \<open>sB = 54\<close> by simp
  qed
  then have B: "round53 (T * 5404319552844595) \<le> 9007199254740992 * (12 * q + V)"
    using cB unfolding sB [symmetric] by (intro RB_grid [OF T])
  from grid_sum [OF A B s] show ?thesis
    unfolding Math_floor_def js_times_def d_0_4_def d_0_3_def d_0_15_def d_0_1_def d_0_05_def
      fst_conv snd_conv T [symmetric] by simp
qed

text \<open>The three ranges of total supplies between \<open>5 * 2 ^ 51\<close> and \<open>3 * 2 ^ 53\<close> on which the units
  of the two products are constant: up to 15011998757901654, where the product with
  5404319552844595 reaches \<open>2 ^ 106\<close>; up to \<open>5 * 2 ^ 52\<close>, where the product with 7205759403792794
  reaches \<open>2 ^ 107\<close>; and from there on.\<close>

lemma bit_length_range:
  fixes T M lo hi s :: nat
  assumes "lo \<le> T" and "T \<le> hi" and "2 ^ (52 + s) \<le> lo * M" and "hi * M < 2 ^ (53 + s)"
  shows "bit_length (T * M) - 53 = s"
proof (rule bit_length_eq)
  have "lo * M \<le> T * M" using assms(1) by (rule mult_le_mono1)
  with assms(3) show "2 ^ (52 + s) \<le> T * M" by (rule order_trans)
  have "T * M \<le> hi * M" using assms(2) by (rule mult_le_mono1)
  then show "T * M < 2 ^ (53 + s)" using assms(4) by (rule le_less_trans)
qed

lemma sum_upper_low:
  fixes T r U V :: nat
  assumes lo: "11258999068426240 \<le> T" and hi: "T < 15011998757901654" and r: "T mod 20 = r"
    and cA: "4 * 15011998757901654 + 4 * r * 18014398509481984 \<le> 10 * U * 18014398509481984 + 5 * 18014398509481984"
    and cB: "12 * r * 9007199254740992 < 4 * 11258999068426240 + 20 * V * 9007199254740992 + 10 * 9007199254740992"
    and s: "U + U div 4 + U div 8 + V div 2 + V div 4 \<le> r"
  shows "Math_floor (js_times T d_0_4) + Math_floor (js_times T d_0_3)
       + Math_floor (js_times T d_0_15) + Math_floor (js_times T d_0_1)
       + Math_floor (js_times T d_0_05) \<le> T"
proof -
  have hi': "T \<le> 15011998757901653" using hi by simp
  have sA: "bit_length (T * 7205759403792794) - 53 = 54"
    using lo hi' by (rule bit_length_range) simp_all
  have sB: "bit_length (T * 5404319552844595) - 53 = 53"
    using lo hi' by (rule bit_length_range) simp_all
  have dA: "(54::nat) \<le> 54 \<or> ((54::nat) = 55 \<and> even U)" by simp
  have dB: "(53::nat) \<le> 53 \<or> ((53::nat) = 54 \<and> even V)" by simp
  have cA': "4 * T + 4 * r * 18014398509481984 < 10 * U * 18014398509481984 + 5 * 2 ^ 54"
    using cA hi by simp
  have cB': "12 * r * 9007199254740992 < 4 * T + 20 * V * 9007199254740992 + 10 * 2 ^ 53"
    using cB lo by simp
  from r sA sB dA dB cA' cB' s show ?thesis by (rule amounts_le_grid)
qed

lemma sum_upper_mid:
  fixes T r U V :: nat
  assumes lo: "15011998757901654 \<le> T" and hi: "T < 22517998136852479" and r: "T mod 20 = r" and eV: "even V"
    and cA: "4 * 22517998136852479 + 4 * r * 18014398509481984 \<le> 10 * U * 18014398509481984 + 5 * 18014398509481984"
    and cB: "12 * r * 9007199254740992 < 4 * 15011998757901654 + 20 * V * 9007199254740992 + 10 * 18014398509481984"
    and s: "U + U div 4 + U div 8 + V div 2 + V div 4 \<le> r"
  shows "Math_floor (js_times T d_0_4) + Math_floor (js_times T d_0_3)
       + Math_floor (js_times T d_0_15) + Math_floor (js_times T d_0_1)
       + Math_floor (js_times T d_0_05) \<le> T"
proof -
  have hi': "T \<le> 22517998136852478" using hi by simp
  have sA: "bit_length (T * 7205759403792794) - 53 = 54"
    using lo hi' by (rule bit_length_range) simp_all
  have sB: "bit_length (T * 5404319552844595) - 53 = 54"
    using lo hi' by (rule bit_length_range) simp_all
  have dA: "(54::nat) \<le> 54 \<or> ((54::nat) = 55 \<and> even U)" by simp
  have dB: "(54::nat) \<le> 53 \<or> ((54::nat) = 54 \<and> even V)" using eV by simp
  have cA': "4 * T + 4 * r * 18014398509481984 < 10 * U * 18014398509481984 + 5 * 2 ^ 54"
    using cA hi by simp
  have cB': "12 * r * 9007199254740992 < 4 * T + 20 * V * 9007199254740992 + 10 * 2 ^ 54"
    using cB lo by simp
  from r sA sB dA dB cA' cB' s show ?thesis by (rule amounts_le_grid)
qed

lemma sum_upper_high:
  fixes T r U V :: nat
  assumes lo: "22517998136852480 \<le> T" and hi: "T < 27021597764222976" and r: "T mod 20 = r" and eU: "even U" and eV: "even V"
    and cA: "4 * 27021597764222976 + 4 * r * 18014398509481984 \<le> 10 * U * 18014398509481984 + 5 * 36028797018963968"
    and cB: "12 * r * 9007199254740992 < 4 * 22517998136852480 + 20 * V * 9007199254740992 + 10 * 18014398509481984"
    and s: "U + U div 4 + U div 8 + V div 2 + V div 4 \<le> r"
  shows "Math_floor (js_times T d_0_4) + Math_floor (js_times T d_0_3)
       + Math_floor (js_times T d_0_15) + Math_floor (js_times T d_0_1)
       + Math_floor (js_times T d_0_05) \<le> T"
proof -
  have hi': "T \<le> 27021597764222975" using hi by simp
  have sA: "bit_length (T * 7205759403792794) - 53 = 55"
    using lo hi' by (rule bit_length_range) simp_all
  have sB: "bit_length (T * 5404319552844595) - 53 = 54"
    using lo hi' by (rule bit_length_range) simp_all
  have dA: "(55::nat) \<le> 54 \<or> ((55::nat) = 55 \<and> even U)" using eU by simp
  have dB: "(54::nat) \<le> 53 \<or> ((54::nat) = 54 \<and> even V)" using eV by simp
  have cA': "4 * T + 4 * r * 18014398509481984 < 10 * U * 18014398509481984 + 5 * 2 ^ 55"
    using cA hi by simp
  have cB': "12 * r * 9007199254740992 < 4 * T + 20 * V * 9007199254740992 + 10 * 2 ^ 54"
    using cB lo by simp
  from r sA sB dA dB cA' cB' s show ?thesis by (rule amounts_le_grid)
qed

text \<open>A Number from \<open>2 ^ 53\<close> on is even; every natural number below \<open>2 ^ 53\<close> is a Number.\<close>

lemma js_number_even:
  assumes "is_js_number T" and "9007199254740992 \<le> T"
  shows "even T"
proof -
  have "(2::nat) ^ 53 \<le> T" using assms(2) by simp
  then have "53 < bit_length T" by (rule bit_length_gt)
  then have s: "0 < bit_length T - 53" by simp
  then have "even ((2::nat) ^ (bit_length T - 53))" by simp
  then have "even (k * 2 ^ (bit_length T - 53))" for k :: nat by simp
  with round53_cases [of T] s have "even (round53 T)" by auto
  with assms(1) show ?thesis by (simp add: is_js_number_def)
qed

lemma even_residues:
  fixes T :: nat
  assumes "even T"
  shows "T mod 20 = 0 \<or> T mod 20 = 2 \<or> T mod 20 = 4 \<or> T mod 20 = 6 \<or> T mod 20 = 8 \<or>
         T mod 20 = 10 \<or> T mod 20 = 12 \<or> T mod 20 = 14 \<or> T mod 20 = 16 \<or> T mod 20 = 18"
  using assms by presburger

text \<open>The sum of the five amounts is at most the total supply, for every Number below
  \<open>3 * 2 ^ 53\<close>: by the rounding bound below \<open>5 * 2 ^ 51\<close>, and there on by the residue of the (even)
  total supply modulo 20 in each of the three ranges.\<close>

lemma sum_upper:
  assumes js: "is_js_number T" and hi: "T < 27021597764222976"
  shows "Math_floor (js_times T d_0_4) + Math_floor (js_times T d_0_3)
       + Math_floor (js_times T d_0_15) + Math_floor (js_times T d_0_1)
       + Math_floor (js_times T d_0_05) \<le> T"
proof (cases "T < 11258999068426240")
  case True
  then show ?thesis by (rule sum_upper_small)
next
  case False
  then have l0: "11258999068426240 \<le> T" by simp
  then have ev: "even T" using js by (intro js_number_even) simp_all
  show ?thesis
  proof (cases "T < 15011998757901654")
    case low: True
      from even_residues [OF ev] show ?thesis
      proof (elim disjE)
        assume "T mod 20 = 0"
        with l0 low show ?thesis
          by (rule sum_upper_low [where U = 0 and V = 0]) simp_all
      next
        assume "T mod 20 = 2"
        with l0 low show ?thesis
          by (rule sum_upper_low [where U = 1 and V = 1]) simp_all
      next
        assume "T mod 20 = 4"
        with l0 low show ?thesis
          by (rule sum_upper_low [where U = 2 and V = 2]) simp_all
      next
        assume "T mod 20 = 6"
        with l0 low show ?thesis
          by (rule sum_upper_low [where U = 3 and V = 3]) simp_all
      next
        assume "T mod 20 = 8"
        with l0 low show ?thesis
          by (rule sum_upper_low [where U = 4 and V = 5]) simp_all
      next
        assume "T mod 20 = 10"
        with l0 low show ?thesis
          by (rule sum_upper_low [where U = 4 and V = 6]) simp_all
      next
        assume "T mod 20 = 12"
        with l0 low show ?thesis
          by (rule sum_upper_low [where U = 5 and V = 7]) simp_all
      next
        assume "T mod 20 = 14"
        with l0 low show ?thesis
          by (rule sum_upper_low [where U = 6 and V = 8]) simp_all
      next
        assume "T mod 20 = 16"
        with l0 low show ?thesis
          by (rule sum_upper_low [where U = 7 and V = 9]) simp_all
      next
        assume "T mod 20 = 18"
        with l0 low show ?thesis
          by (rule sum_upper_low [where U = 8 and V = 11]) simp_all
      qed
  next
    case nlow: False
    then have l1: "15011998757901654 \<le> T" by simp
    show ?thesis
    proof (cases "T < 22517998136852480")
      case True
      with ev have mid: "T < 22517998136852479" by (cases "T = 22517998136852479") simp_all
      from even_residues [OF ev] show ?thesis
      proof (elim disjE)
        assume "T mod 20 = 0"
        with l1 mid show ?thesis
          by (rule sum_upper_mid [where U = 0 and V = 0]) simp_all
      next
        assume "T mod 20 = 2"
        with l1 mid show ?thesis
          by (rule sum_upper_mid [where U = 1 and V = 0]) simp_all
      next
        assume "T mod 20 = 4"
        with l1 mid show ?thesis
          by (rule sum_upper_mid [where U = 2 and V = 2]) simp_all
      next
        assume "T mod 20 = 6"
        with l1 mid show ?thesis
          by (rule sum_upper_mid [where U = 3 and V = 4]) simp_all
      next
        assume "T mod 20 = 8"
        with l1 mid show ?thesis
          by (rule sum_upper_mid [where U = 4 and V = 4]) simp_all
      next
        assume "T mod 20 = 10"
        with l1 mid show ?thesis
          by (rule sum_upper_mid [where U = 4 and V = 6]) simp_all
      next
        assume "T mod 20 = 12"
        with l1 mid show ?thesis
          by (rule sum_upper_mid [where U = 5 and V = 6]) simp_all
      next
        assume "T mod 20 = 14"
        with l1 mid show ?thesis
          by (rule sum_upper_mid [where U = 6 and V = 8]) simp_all
      next
        assume "T mod 20 = 16"
        with l1 mid show ?thesis
          by (rule sum_upper_mid [where U = 7 and V = 10]) simp_all
      next
        assume "T mod 20 = 18"
        with l1 mid show ?thesis
          by (rule sum_upper_mid [where U = 8 and V = 10]) simp_all
      qed
    next
      case False
      then have l2: "22517998136852480 \<le> T" by simp
      from even_residues [OF ev] show ?thesis
      proof (elim disjE)
        assume "T mod 20 = 0"
        with l2 hi show ?thesis
          by (rule sum_upper_high [where U = 0 and V = 0]) simp_all
      next
        assume "T mod 20 = 2"
        with l2 hi show ?thesis
          by (rule sum_upper_high [where U = 2 and V = 0]) simp_all
      next
        assume "T mod 20 = 4"
        with l2 hi show ?thesis
          by (rule sum_upper_high [where U = 2 and V = 2]) simp_all
      next
        assume "T mod 20 = 6"
        with l2 hi show ?thesis
          by (rule sum_upper_high [where U = 2 and V = 4]) simp_all
      next
        assume "T mod 20 = 8"
        with l2 hi show ?thesis
          by (rule sum_upper_high [where U = 4 and V = 4]) simp_all
      next
        assume "T mod 20 = 10"
        with l2 hi show ?thesis
          by (rule sum_upper_high [where U = 4 and V = 6]) simp_all
      next
        assume "T mod 20 = 12"
        with l2 hi show ?thesis
          by (rule sum_upper_high [where U = 6 and V = 6]) simp_all
      next
        assume "T mod 20 = 14"
        with l2 hi show ?thesis
          by (rule sum_upper_high [where U = 6 and V = 8]) simp_all
      next
        assume "T mod 20 = 16"
        with l2 hi show ?thesis
          by (rule sum_upper_high [where U = 6 and V = 10]) simp_all
      next
        assume "T mod 20 = 18"
        with l2 hi show ?thesis
          by (rule sum_upper_high [where U = 8 and V = 10]) simp_all
      qed
    qed
  qed
qed

lemma sum_lower:
  assumes "T < 27021597764222976"
  shows "T \<le> Math_floor (js_times T d_0_4) + Math_floor (js_times T d_0_3)
       + Math_floor (js_times T d_0_15) + Math_floor (js_times T d_0_1)
       + Math_floor (js_times T d_0_05) + 4"
  using sumbound [of T] ge_0_4 [OF assms] ge_0_3 [OF assms] ge_0_15 [OF assms] ge_0_1 [OF assms]
    ge_0_05 [OF assms]
  by linarith

lemma is_js_number_below_2_53:
  assumes "T < 9007199254740992"
  shows "is_js_number T"
proof -
  have "T < 2 ^ 53" using assms by simp
  then have "bit_length T \<le> 53" by (rule bit_length_le)
  then show ?thesis by (simp add: is_js_number_def round53_def)
qed

section \<open>The minting plan\<close>

text \<open>
  Claim C2, as amended. For every total supply \<open>T\<close> below \<open>3 * 2 ^ 50 = 3377699720527872\<close>,
  \<^verbatim>\<open>calculateDistributions\<close> allocates exactly \<open>floor (T * fraction)\<close> units to each bucket, in
  the fixed order Liquidity Pool (0.4), Community (0.3), Team (0.15), Marketing (0.1),
  Reserve (0.05). The products are computed in double precision, and the bound is where
  rounding first changes a floor.
\<close>

theorem C2_plan_amounts:
  assumes "T < 3377699720527872"
  shows "map (\<lambda>d. (d_name d, d_amount d)) (calculateDistributions T pk) =
    [(''Liquidity Pool'', spec_allocation T (4 / 10)),
     (''Community'', spec_allocation T (3 / 10)),
     (''Team'', spec_allocation T (15 / 100)),
     (''Marketing'', spec_allocation T (1 / 10)),
     (''Reserve'', spec_allocation T (5 / 100))]"
proof -
  have a: "spec_allocation T (2 / 5) = int ((T * 2) div 5)"
    using spec_allocation_div [of 5 T 2] by simp
  have b: "spec_allocation T (3 / 10) = int ((T * 3) div 10)"
    using spec_allocation_div [of 10 T 3] by simp
  have c: "spec_allocation T (3 / 20) = int ((T * 3) div 20)"
    using spec_allocation_div [of 20 T 3] by simp
  have d: "spec_allocation T (1 / 10) = int (T div 10)"
    using spec_allocation_div [of 10 T 1] by simp
  have e: "spec_allocation T (1 / 20) = int (T div 20)"
    using spec_allocation_div [of 20 T 1] by simp
  show ?thesis
    using floor_0_4 [OF assms] floor_0_3 [OF assms] floor_0_15 [OF assms] floor_0_1 [OF assms]
      floor_0_05 [OF assms]
    by (simp add: calculateDistributions_def BigInt_def a b c d e)
qed

text \<open>
  At \<open>T = 100000000\<close> the five amounts are 40000000, 30000000, 15000000, 10000000 and
  5000000, in that order, and sum to 100000000.
\<close>

theorem C2_plan_amounts_witness:
  "(100000000::nat) < 3377699720527872 \<and>
   map (\<lambda>d. (d_name d, d_amount d)) (calculateDistributions 100000000 ''key:mint-authority.json'') =
     [(''Liquidity Pool'', 40000000), (''Community'', 30000000), (''Team'', 15000000),
      (''Marketing'', 10000000), (''Reserve'', 5000000)] \<and>
   (40000000 + 30000000 + 15000000 + 10000000 + 5000000 :: int) = 100000000"
  using C2_plan_amounts [of 100000000 "''key:mint-authority.json''"]
  by (simp add: spec_allocation_def)

text \<open>
  Claim C2 as stated (every total supply) fails at \<open>T = 3 * 2 ^ 50\<close>, which is a Number:
  \<^verbatim>\<open>Math.floor(3377699720527872 * 0.4)\<close> is 1351079888211149, one more than the floor of
  the exact product 1351079888211148.8.
\<close>

theorem C2_counterexample:
  "is_js_number 3377699720527872 \<and>
   d_amount (hd (calculateDistributions 3377699720527872 ''key:mint-authority.json''))
     \<noteq> spec_allocation 3377699720527872 (4 / 10)"
  using spec_allocation_div [of 5 3377699720527872 2]
  by (simp add: is_js_number_def calculateDistributions_def double_eval)

text \<open>
  Claim C9, as amended. For every natural-number total supply \<open>T\<close> that is a Number (every
  natural number below \<open>2 ^ 53\<close>; from there on the representable ones) and is below
  \<open>3 * 2 ^ 53 = 27021597764222976\<close>, the sum of the five amounts of the plan is at most \<open>T\<close>
  and at least \<open>T - 4\<close>. The bound is the least Number at which the sum exceeds \<open>T\<close>.
\<close>

theorem C9_sum_bounds:
  assumes "is_js_number T" and "T < 27021597764222976"
  shows "sum_list (map d_amount (calculateDistributions T pk)) \<le> int T \<and>
         int T - 4 \<le> sum_list (map d_amount (calculateDistributions T pk))"
  using sum_upper [OF assms] sum_lower [OF assms(2)]
  by (simp add: calculateDistributions_def BigInt_def)

text \<open>
  At \<open>T = 19\<close> the amounts are 7, 5, 2, 1, 0: the sum 15 is exactly \<open>T - 4\<close>. At
  \<open>T = 3 * 2 ^ 53 - 4\<close>, the greatest Number below the bound, the sum is \<open>T - 1\<close>.
\<close>

theorem C9_sum_bounds_witness:
  "is_js_number 19 \<and> (19::nat) < 27021597764222976 \<and>
   sum_list (map d_amount (calculateDistributions 19 ''key:mint-authority.json'')) = 15 \<and>
   (15::int) \<le> int 19 \<and> int 19 - 4 \<le> (15::int) \<and>
   is_js_number 27021597764222972 \<and> (27021597764222972::nat) < 27021597764222976 \<and>
   sum_list (map d_amount (calculateDistributions 27021597764222972 ''key:mint-authority.json''))
     = 27021597764222972 - 1"
  using C9_sum_bounds [of 19 "''key:mint-authority.json''"]
    C9_sum_bounds [of 27021597764222972 "''key:mint-authority.json''"]
  by (simp add: is_js_number_def calculateDistributions_def double_eval)

text \<open>
  Claim C9 as stated (every natural number) fails at \<open>T = 3 * 2 ^ 53\<close>, which is a Number: the
  amounts are 10808639105689192, 8106479329266892, 4053239664633446, 2702159776422298 and
  1351079888211149, and sum to \<open>T + 1\<close>.
\<close>

theorem C9_counterexample:
  "is_js_number 27021597764222976 \<and>
   sum_list (map d_amount (calculateDistributions 27021597764222976 ''key:mint-authority.json''))
     = 27021597764222976 + 1 \<and>
   \<not> sum_list (map d_amount (calculateDistributions 27021597764222976 ''key:mint-authority.json''))
     \<le> int 27021597764222976"
  by (simp add: is_js_number_def calculateDistributions_def double_eval)

section \<open>Evaluating the scripts\<close>

lemmas run_defs = andThen_def tryCatch_def ok_def throw_def emit_def process_exit_def ext_def
  ext_unit_def node_main_def

lemmas mint_defs = main_mint_def parseArgs_mint_def mint_defaults_def TokenMinter_new_def
  loadConfig_def createConnection_def network_or_default_def loadKeypairs_mint_def load_key_def
  executeMinting_def createTokenMint_def publicKey_of_def distributeTokens_def
  calculateDistributions_of_def showDistributionPlan_def mintTokens_def createTokenAccount_def
  saveDistributionResults_def JSON_stringify_distributionInfo_def ensure_deployments_dir_def
  revokeMintAuthority_def step_succeeded_def step_failed_def

lemmas metadata_defs = main_metadata_def parseArgs_metadata_def metadata_defaults_def
  MetadataDeployer_new_def loadConfig_def loadMetadata_def createConnection_def
  network_or_default_def loadKeypairs_metadata_def load_key_def deployMetadata_def
  checkNetworkHealth_def showDeploymentPlan_def loaded_or_not_def saveDeploymentInfo_def
  metadataUri_def publicKey_of_def ensure_deployments_dir_def

lemmas pool_defs = main_pool_def parseArgs_pool_def pool_defaults_def LiquidityCreator_new_def
  loadConfig_def createConnection_def network_or_default_def loadKeypairs_pool_def load_key_def
  executePoolCreation_def checkPrerequisites_def check_mint_exists_def check_sol_balance_def
  check_token_balance_def PublicKey_new_def publicKey_of_def createPool_def
  addInitialLiquidity_def lockLiquidity_def showCreationPlan_def savePoolInfo_def
  ensure_deployments_dir_def

lemmas devnet_defs = devnet_env_def devnet_config_def devnet_metadata_def

lemmas js_parse_defs = BigInt_of_string_def parseInt_def is_digit_def decimal_value_def
  digit_value_def

lemma plan_100000000:
  "calculateDistributions 100000000 pk =
    [\<lparr>d_name = ''Liquidity Pool'', d_amount = 40000000, d_recipient = pk,
       d_purpose = ''Initial liquidity provision''\<rparr>,
     \<lparr>d_name = ''Community'', d_amount = 30000000, d_recipient = pk,
       d_purpose = ''Community rewards and airdrops''\<rparr>,
     \<lparr>d_name = ''Team'', d_amount = 15000000, d_recipient = pk,
       d_purpose = ''Team allocation with vesting''\<rparr>,
     \<lparr>d_name = ''Marketing'', d_amount = 10000000, d_recipient = pk,
       d_purpose = ''Marketing campaigns and partnerships''\<rparr>,
     \<lparr>d_name = ''Reserve'', d_amount = 5000000, d_recipient = pk,
       d_purpose = ''Future development and emergency fund''\<rparr>]"
  by (simp add: calculateDistributions_def double_eval)

section \<open>Dry runs\<close>

text \<open>
  Claim C1 (every action under \<^verbatim>\<open>--dry-run\<close> performs no network mutation and no file
  write) fails on \<^verbatim>\<open>mint-token.js\<close>: \<^verbatim>\<open>executeMinting\<close> calls \<^verbatim>\<open>createTokenMint\<close> before it
  looks at \<^verbatim>\<open>dryRun\<close>, so \<^verbatim>\<open>node mint-token.js --dry-run\<close> creates the mint on chain, and with
  \<^verbatim>\<open>--amount\<close> it also mints. No file is written. The dry runs of the two other scripts
  make read-only calls only.
\<close>

theorem C1_mint_dry_run_creates_mint:
  "rpc_calls (fst (main_mint devnet_env [''--dry-run''])) = [CreateMint] \<and>
   mutates CreateMint \<and>
   file_writes (fst (main_mint devnet_env [''--dry-run''])) = [] \<and>
   snd (main_mint devnet_env [''--dry-run'']) = 0 \<and>
   rpc_calls (fst (main_mint devnet_env [''--dry-run'', ''--amount'', ''500''])) =
     [CreateMint, GetOrCreateAssociatedTokenAccount ''key:mint-authority.json'',
      MintTo ''TokenAccount'' 500] \<and>
   rpc_calls (fst (main_metadata devnet_env [''--dry-run''])) = [GetVersion, GetSlot] \<and>
   file_writes (fst (main_metadata devnet_env [''--dry-run''])) = [] \<and>
   rpc_calls (fst (main_pool devnet_env [''--dry-run''])) =
     [GetParsedAccountInfo ''FdaWtGGTfnWq8MU9ToCGBTQspuXhxyGpRjqY7M55V62n'',
      GetBalance ''key:main-keypair.json'', GetTokenAccountBalance ''AssociatedTokenAddress''] \<and>
   file_writes (fst (main_pool devnet_env [''--dry-run''])) = []"
  by (simp add: mint_defs metadata_defs pool_defs run_defs devnet_defs plan_100000000
      toString.simps digit_char_def js_parse_defs Let_def)

section \<open>The distribution loop and its record\<close>

text \<open>
  Claim C3 (third of five steps fails: five step results with one error are persisted and
  the process exits with status 0). The loop does continue past the failure and collects
  five results, the third carrying the error message; but \<^verbatim>\<open>saveDistributionResults\<close> then
  throws on serialising the BigInt amounts, so nothing is written, the mint authority is not
  revoked and the process exits with status 1.
\<close>

theorem C3_third_step_fails:
  "(case snd (distribute_loop third_fails_env 0
        (calculateDistributions 100000000 ''key:mint-authority.json'') []) of
      Ok results \<Rightarrow> map sr_error results =
        [None, None, Some ''Transaction simulation failed'', None, None]
    | Throw e \<Rightarrow> False
    | Exit n \<Rightarrow> False) \<and>
   file_writes (fst (main_mint third_fails_env [])) = [] \<and>
   last (console_errors (fst (main_mint third_fails_env []))) =
     ''Token minting failed: Do not know how to serialize a BigInt'' \<and>
   SetAuthority \<notin> set (rpc_calls (fst (main_mint third_fails_env []))) \<and>
   snd (main_mint third_fails_env []) = 1"
  by (simp add: third_fails_env_def mint_defs run_defs devnet_defs plan_100000000)

section \<open>Pool creation\<close>

text \<open>
  Claim C4. After the prerequisite phase has passed, the steps create pool, add liquidity,
  lock liquidity run in that order, and the first failure ends the run with
  \<^verbatim>\<open>process.exit(1)\<close>: no later step is started and nothing is written. In particular, when
  create pool has succeeded and add liquidity fails, lock liquidity is never executed and
  the exit status is 1.
\<close>

theorem C4_pool_stop_on_first_error:
  assumes "checkPrerequisites env this = (t0, Ok ())"
  shows
   "(new_PublicKey env ''POOL_ADDRESS_PLACEHOLDER'' = Inl e \<longrightarrow>
       executePoolCreation env this solAmount False =
         (t0 @ [Console_log ''Creating liquidity pool...'',
                Console_error (''Failed to create pool: '' @ message e),
                Console_error (''Pool creation failed: '' @ message e)],
          Exit 1)) \<and>
    (new_PublicKey env ''POOL_ADDRESS_PLACEHOLDER'' = Inr poolAddress \<and>
     new_Transaction env = Some e \<longrightarrow>
       executePoolCreation env this solAmount False =
         (t0 @ [Console_log ''Creating liquidity pool...'', Console_log ''Pool created successfully!'',
                Console_log ''Adding initial liquidity...'',
                Console_error (''Failed to add initial liquidity: '' @ message e),
                Console_error (''Pool creation failed: '' @ message e)],
          Exit 1)) \<and>
    (new_PublicKey env ''POOL_ADDRESS_PLACEHOLDER'' = Inr poolAddress \<and>
     new_Transaction env = None \<and> cfg_lock_period (cr_config this) = None \<longrightarrow>
       executePoolCreation env this solAmount False =
         (t0 @ [Console_log ''Creating liquidity pool...'', Console_log ''Pool created successfully!'',
                Console_log ''Adding initial liquidity...'',
                Console_log ''Initial liquidity added successfully!'',
                Console_log ''Locking liquidity...'',
                Console_error (''Failed to lock liquidity: '' @ message (cannot_read ''lock_period'')),
                Console_error (''Pool creation failed: '' @ message (cannot_read ''lock_period''))],
          Exit 1)) \<and>
    (new_PublicKey env ''POOL_ADDRESS_PLACEHOLDER'' = Inr poolAddress \<and>
     new_Transaction env = None \<and> cfg_lock_period (cr_config this) = Some lockPeriod \<and>
     (Date_now env div 1000 + lockPeriod) * 1000 \<le> 8640000000000000 \<and>
     deployments_dir_exists env \<and> writeFileSync_result env = None \<longrightarrow>
       executePoolCreation env this solAmount False =
         (t0 @ [Console_log ''Creating liquidity pool...'', Console_log ''Pool created successfully!'',
                Console_log ''Adding initial liquidity...'',
                Console_log ''Initial liquidity added successfully!'',
                Console_log ''Locking liquidity...'', Console_log ''Liquidity locked successfully!'',
                Fs_write (infoPath ''pool'' (cr_network this) (Date_now env))
                  (Pool_info (new_Date env) (cr_network this) poolAddress
                     (cfg_sol_amount (cr_config this)) (cfg_glowmin_amount (cr_config this))
                     ''TRANSACTION_SIGNATURE_PLACEHOLDER'' ''LOCK_TRANSACTION_SIGNATURE_PLACEHOLDER''
                     (Date_now env div 1000 + lockPeriod) (cfg_raydium_program_id (cr_config this))),
                Console_log ''Pool info saved'',
                Console_log ''GlowMin liquidity pool creation completed successfully!''],
          Ok ()))"
  using assms
  by (simp add: executePoolCreation_def createPool_def addInitialLiquidity_def lockLiquidity_def
      savePoolInfo_def ensure_deployments_dir_def PublicKey_new_def run_defs Let_def)

text \<open>
  The theorem at four environments: \<^verbatim>\<open>new PublicKey\<close> fails; only \<^verbatim>\<open>new Transaction()\<close>
  fails; the configuration has no lock period; all three steps succeed. In the second,
  \<^verbatim>\<open>node create-liquidity.js\<close> never prints the first line of \<^verbatim>\<open>lockLiquidity\<close> and exits with
  status 1.
\<close>

theorem C4_pool_stop_on_first_error_witness:
  "snd (checkPrerequisites create_pool_fails_env devnet_creator) = Ok () \<and>
   new_PublicKey create_pool_fails_env ''POOL_ADDRESS_PLACEHOLDER''
     = Inl (Error ''Invalid public key input'') \<and>
   executePoolCreation create_pool_fails_env devnet_creator None False =
     (fst (checkPrerequisites create_pool_fails_env devnet_creator) @
        [Console_log ''Creating liquidity pool...'',
         Console_error ''Failed to create pool: Invalid public key input'',
         Console_error ''Pool creation failed: Invalid public key input''],
      Exit 1) \<and>
   snd (checkPrerequisites add_liquidity_fails_env devnet_creator) = Ok () \<and>
   new_PublicKey add_liquidity_fails_env ''POOL_ADDRESS_PLACEHOLDER'' = Inr ''POOL_ADDRESS_PLACEHOLDER'' \<and>
   new_Transaction add_liquidity_fails_env = Some (Error ''Transaction failed'') \<and>
   executePoolCreation add_liquidity_fails_env devnet_creator None False =
     (fst (checkPrerequisites add_liquidity_fails_env devnet_creator) @
        [Console_log ''Creating liquidity pool...'', Console_log ''Pool created successfully!'',
         Console_log ''Adding initial liquidity...'',
         Console_error ''Failed to add initial liquidity: Transaction failed'',
         Console_error ''Pool creation failed: Transaction failed''],
      Exit 1) \<and>
   Console_log ''Locking liquidity...'' \<notin> set (fst (main_pool add_liquidity_fails_env [])) \<and>
   file_writes (fst (main_pool add_liquidity_fails_env [])) = [] \<and>
   snd (main_pool add_liquidity_fails_env []) = 1 \<and>
   snd (checkPrerequisites devnet_env creator_without_lock_period) = Ok () \<and>
   cfg_lock_period (cr_config creator_without_lock_period) = None \<and>
   snd (executePoolCreation devnet_env creator_without_lock_period None False) = Exit 1 \<and>
   snd (checkPrerequisites dir_exists_env devnet_creator) = Ok () \<and>
   new_Transaction dir_exists_env = None \<and>
   cfg_lock_period (cr_config devnet_creator) = Some 63072000 \<and>
   deployments_dir_exists dir_exists_env \<and> writeFileSync_result dir_exists_env = None \<and>
   snd (executePoolCreation dir_exists_env devnet_creator None False) = Ok () \<and>
   filter (\<lambda>e. e \<in> set [Console_log ''Creating liquidity pool...'',
       Console_log ''Adding initial liquidity...'', Console_log ''Locking liquidity...''])
     (fst (executePoolCreation dir_exists_env devnet_creator None False))
   = [Console_log ''Creating liquidity pool...'', Console_log ''Adding initial liquidity...'',
      Console_log ''Locking liquidity...'']"
  using C4_pool_stop_on_first_error [where env = create_pool_fails_env and this = devnet_creator
      and ?t0.0 = "fst (checkPrerequisites create_pool_fails_env devnet_creator)"
      and poolAddress = "''POOL_ADDRESS_PLACEHOLDER''" and e = "Error ''Invalid public key input''"
      and solAmount = None and lockPeriod = 0]
    C4_pool_stop_on_first_error [where env = add_liquidity_fails_env and this = devnet_creator
      and ?t0.0 = "fst (checkPrerequisites add_liquidity_fails_env devnet_creator)"
      and poolAddress = "''POOL_ADDRESS_PLACEHOLDER''" and e = "Error ''Transaction failed''"
      and solAmount = None and lockPeriod = 0]
    C4_pool_stop_on_first_error [where env = devnet_env and this = creator_without_lock_period
      and ?t0.0 = "fst (checkPrerequisites devnet_env creator_without_lock_period)"
      and poolAddress = "''POOL_ADDRESS_PLACEHOLDER''" and e = "Error ''Transaction failed''"
      and solAmount = None and lockPeriod = 0]
    C4_pool_stop_on_first_error [where env = dir_exists_env and this = devnet_creator
      and ?t0.0 = "fst (checkPrerequisites dir_exists_env devnet_creator)"
      and poolAddress = "''POOL_ADDRESS_PLACEHOLDER''" and e = "Error ''Transaction failed''"
      and solAmount = None and lockPeriod = 63072000]
  by (simp add: create_pool_fails_env_def add_liquidity_fails_env_def dir_exists_env_def
      creator_without_lock_period_def devnet_creator_def pool_defs run_defs devnet_defs
      toString.simps digit_char_def Let_def)

section \<open>Minting a given amount\<close>

text \<open>
  Claim C5, as amended. With \<^verbatim>\<open>--amount n\<close> and \<open>n\<close> not zero, once the mint exists and the
  token account is there, \<^verbatim>\<open>executeMinting\<close> does not consult the allocation plan and
  executes exactly one \<^verbatim>\<open>mintTo\<close>, of \<open>n\<close> units; its result (token account and signature)
  is printed, and nothing is written under the deployments directory.
\<close>

theorem C5_amount_single_mint:
  assumes "n \<noteq> 0"
    and "m_keypairs this ''mintAuthority'' = Some pk"
    and "m_keypairs this ''freezeAuthority'' = Some fk"
    and "createMint_result env = Inr mintAddress"
    and "getOrCreateAssociatedTokenAccount_result env 0 = Inr tokenAccount"
    and "mintTo_result env 0 = Inr signature"
  shows "executeMinting env this (Some n) dryRun =
    ([Console_log ''Creating token mint...'', Rpc CreateMint, Console_log ''Minting tokens...'',
      Rpc (GetOrCreateAssociatedTokenAccount pk), Rpc (MintTo tokenAccount n),
      Console_log (''Minting completed! Token Account: '' @ tokenAccount
        @ '' Transaction: '' @ signature),
      Console_log ''GlowMin token minting completed successfully!''],
     Ok ())"
  using assms by (simp add: mint_defs run_defs)

text \<open>
  With \<^verbatim>\<open>--amount 500\<close>: one \<^verbatim>\<open>mintTo\<close> of 500 units, no file.
\<close>

theorem C5_amount_single_mint_witness:
  "(500::int) \<noteq> 0 \<and>
   parseArgs_mint [''--amount'', ''500''] = ok (mint_defaults\<lparr>mo_amount := Some 500\<rparr>) \<and>
   executeMinting devnet_env devnet_minter (Some 500) False =
    ([Console_log ''Creating token mint...'', Rpc CreateMint, Console_log ''Minting tokens...'',
      Rpc (GetOrCreateAssociatedTokenAccount ''key:mint-authority.json''),
      Rpc (MintTo ''TokenAccount'' 500),
      Console_log ''Minting completed! Token Account: TokenAccount Transaction: Signature'',
      Console_log ''GlowMin token minting completed successfully!''],
     Ok ()) \<and>
   file_writes (fst (main_mint devnet_env [''--amount'', ''500''])) = [] \<and>
   filter is_mintTo (rpc_calls (fst (main_mint devnet_env [''--amount'', ''500''])))
     = [MintTo ''TokenAccount'' 500]"
proof -
  have "executeMinting devnet_env devnet_minter (Some 500) False =
    ([Console_log ''Creating token mint...'', Rpc CreateMint, Console_log ''Minting tokens...'',
      Rpc (GetOrCreateAssociatedTokenAccount ''key:mint-authority.json''),
      Rpc (MintTo ''TokenAccount'' 500),
      Console_log (''Minting completed! Token Account: '' @ ''TokenAccount''
        @ '' Transaction: '' @ ''Signature''),
      Console_log ''GlowMin token minting completed successfully!''],
     Ok ())"
    by (rule C5_amount_single_mint [where fk = "''key:freeze-authority.json''"
          and mintAddress = "''MintAddress''"])
      (simp_all add: devnet_env_def devnet_minter_def)
  moreover have "parseArgs_mint [''--amount'', ''500'']
      = ok (mint_defaults\<lparr>mo_amount := Some 500\<rparr>)"
    by (simp add: parseArgs_mint_def js_parse_defs)
  moreover have "file_writes (fst (main_mint devnet_env [''--amount'', ''500''])) = []"
    by (simp add: mint_defs run_defs devnet_defs js_parse_defs)
  moreover have "filter is_mintTo (rpc_calls (fst (main_mint devnet_env [''--amount'', ''500''])))
     = [MintTo ''TokenAccount'' 500]"
    by (simp add: mint_defs run_defs devnet_defs js_parse_defs)
  ultimately show ?thesis by simp
qed

text \<open>
  Claim C5 as stated fails twice. With \<^verbatim>\<open>--amount 500\<close> the mint is executed but no step
  result is recorded: the branch only prints, and no file is written. With \<^verbatim>\<open>--amount 0\<close>
  the plan is not bypassed: \<^verbatim>\<open>0n\<close> is falsy, so the allocation plan is consulted and its five
  mints are executed.
\<close>

theorem C5_counterexample:
  "file_writes (fst (main_mint devnet_env [''--amount'', ''500''])) = [] \<and>
   parseArgs_mint [''--amount'', ''0''] = ok (mint_defaults\<lparr>mo_amount := Some 0\<rparr>) \<and>
   filter is_mintTo (rpc_calls (fst (main_mint devnet_env [''--amount'', ''0'']))) =
     [MintTo ''TokenAccount'' 40000000, MintTo ''TokenAccount'' 30000000,
      MintTo ''TokenAccount'' 15000000, MintTo ''TokenAccount'' 10000000,
      MintTo ''TokenAccount'' 5000000]"
  by (simp add: mint_defs run_defs devnet_defs plan_100000000 js_parse_defs)

section \<open>Prerequisites of the pool action\<close>

text \<open>
  Claim C6 (each balance check fails exactly when the balance is strictly less than the
  required amount) fails on the GLOWMIN check, which compares decimal strings: a balance of
  9 tokens passes a requirement of 10, and a balance of 100 fails a requirement of 20.
\<close>

theorem C6_token_balance_compared_as_strings:
  "cfg_glowmin_amount (cr_config devnet_creator) = 10 \<and>
   snd (checkPrerequisites low_token_balance_env devnet_creator) = Ok () \<and>
   console_errors (fst (checkPrerequisites low_token_balance_env devnet_creator)) = [] \<and>
   cfg_glowmin_amount (cr_config creator_requiring_20) = 20 \<and>
   snd (checkPrerequisites high_token_balance_env creator_requiring_20) = Exit 1 \<and>
   console_errors (fst (checkPrerequisites high_token_balance_env creator_requiring_20)) =
     [''Insufficient GLOWMIN balance. Required: 20, Available: 100'']"
  by (simp add: low_token_balance_env_def high_token_balance_env_def creator_requiring_20_def
      devnet_creator_def pool_defs run_defs devnet_defs toString.simps digit_char_def Let_def)

section \<open>Missing credentials\<close>

lemma generic_message_names_no_credential:
  "\<not> contains ''mintAuthority'' (message (cannot_read ''publicKey'')) \<and>
   \<not> contains ''mint-authority'' (message (cannot_read ''publicKey'')) \<and>
   \<not> contains ''freezeAuthority'' (message (cannot_read ''publicKey'')) \<and>
   \<not> contains ''freeze-authority'' (message (cannot_read ''publicKey'')) \<and>
   \<not> contains ''main'' (message (cannot_read ''publicKey''))"
  by (simp add: cannot_read_def quoted_def)

lemma load_key_cases:
  "\<forall>e. f \<noteq> Unreadable e \<Longrightarrow> load_key f key kp = ok (case loaded f of None \<Rightarrow> kp | Some k \<Rightarrow> kp(key \<mapsto> k))"
  by (cases f) (simp_all add: load_key_def loaded_def)

text \<open>
  Claim C7, as amended. When no key file is malformed, \<^verbatim>\<open>loadKeypairs\<close> of each script
  neither throws nor exits and returns an object that holds exactly the keypairs whose
  files exist. The next phase that reads \<^verbatim>\<open>publicKey\<close> of a missing keypair
  (\<^verbatim>\<open>createTokenMint\<close> for \<^verbatim>\<open>mintAuthority\<close> or \<^verbatim>\<open>freezeAuthority\<close>, \<^verbatim>\<open>deployMetadata\<close> outside
  a dry run for \<^verbatim>\<open>mintAuthority\<close>, the SOL balance check for \<^verbatim>\<open>main\<close>) fails with the generic
  TypeError of reading a property of \<^verbatim>\<open>undefined\<close>, whose message does not name the
  credential, and the process exits with status 1.
\<close>

theorem C7_missing_credential:
  assumes "\<forall>name e. key_file env name \<noteq> Unreadable e"
  shows
   "(\<exists>kp. loadKeypairs_mint env = ok kp \<and>
      kp ''mintAuthority'' = loaded (key_file env ''mint-authority.json'') \<and>
      kp ''freezeAuthority'' = loaded (key_file env ''freeze-authority.json'') \<and>
      (kp ''mintAuthority'' = None \<or> kp ''freezeAuthority'' = None \<longrightarrow>
       executeMinting env \<lparr>m_network = network, m_config = cfg, m_keypairs = kp\<rparr> amount dryRun =
        ([Console_log ''Creating token mint...'',
          Console_error (''Failed to create token mint: '' @ message (cannot_read ''publicKey'')),
          Console_error (''Token minting failed: '' @ message (cannot_read ''publicKey''))],
         Exit 1))) \<and>
    (\<exists>kp. loadKeypairs_metadata env = ok kp \<and>
      kp ''mintAuthority'' = loaded (key_file env ''mint-authority.json'') \<and>
      kp ''metadataAuthority'' = loaded (key_file env ''metadata-authority.json'') \<and>
      (kp ''mintAuthority'' = None \<and> getVersion_result env = None \<and> getSlot_result env = None \<longrightarrow>
       deployMetadata env
          \<lparr>dp_network = network, dp_config = cfg, dp_metadata = md, dp_keypairs = kp\<rparr> False =
        ([Rpc GetVersion, Rpc GetSlot, Console_log ''Creating metadata account...'',
          Console_error (''Metadata deployment failed: '' @ message (cannot_read ''publicKey''))],
         Exit 1))) \<and>
    (\<exists>kp. loadKeypairs_pool env = ok kp \<and>
      kp ''main'' = loaded (key_file env ''main-keypair.json'') \<and>
      kp ''liquidityAuthority'' = loaded (key_file env ''liquidity-authority.json'') \<and>
      (kp ''main'' = None \<and>
       check_mint_exists env \<lparr>cr_network = network, cr_config = cfg, cr_keypairs = kp\<rparr> = (t, Ok ()) \<longrightarrow>
       checkPrerequisites env \<lparr>cr_network = network, cr_config = cfg, cr_keypairs = kp\<rparr> =
        (Console_log ''Checking prerequisites...'' # t @
           [Console_error (''Failed to check SOL balance: '' @ message (cannot_read ''publicKey''))],
         Exit 1))) \<and>
    \<not> contains ''mintAuthority'' (message (cannot_read ''publicKey'')) \<and>
    \<not> contains ''mint-authority'' (message (cannot_read ''publicKey'')) \<and>
    \<not> contains ''freezeAuthority'' (message (cannot_read ''publicKey'')) \<and>
    \<not> contains ''freeze-authority'' (message (cannot_read ''publicKey'')) \<and>
    \<not> contains ''main'' (message (cannot_read ''publicKey''))"
proof -
  have lk: "load_key (key_file env name) key kp =
      ok (case loaded (key_file env name) of None \<Rightarrow> kp | Some k \<Rightarrow> kp(key \<mapsto> k))" for name key kp
    using assms by (intro load_key_cases) simp
  have mint: "\<exists>kp. loadKeypairs_mint env = ok kp \<and>
      kp ''mintAuthority'' = loaded (key_file env ''mint-authority.json'') \<and>
      kp ''freezeAuthority'' = loaded (key_file env ''freeze-authority.json'') \<and>
      (kp ''mintAuthority'' = None \<or> kp ''freezeAuthority'' = None \<longrightarrow>
       executeMinting env \<lparr>m_network = network, m_config = cfg, m_keypairs = kp\<rparr> amount dryRun =
        ([Console_log ''Creating token mint...'',
          Console_error (''Failed to create token mint: '' @ message (cannot_read ''publicKey'')),
          Console_error (''Token minting failed: '' @ message (cannot_read ''publicKey''))],
         Exit 1))"
    by (cases "loaded (key_file env ''mint-authority.json'')";
        cases "loaded (key_file env ''freeze-authority.json'')")
      (simp_all add: loadKeypairs_mint_def lk executeMinting_def createTokenMint_def
        publicKey_of_def run_defs)
  have meta: "\<exists>kp. loadKeypairs_metadata env = ok kp \<and>
      kp ''mintAuthority'' = loaded (key_file env ''mint-authority.json'') \<and>
      kp ''metadataAuthority'' = loaded (key_file env ''metadata-authority.json'') \<and>
      (kp ''mintAuthority'' = None \<and> getVersion_result env = None \<and> getSlot_result env = None \<longrightarrow>
       deployMetadata env
          \<lparr>dp_network = network, dp_config = cfg, dp_metadata = md, dp_keypairs = kp\<rparr> False =
        ([Rpc GetVersion, Rpc GetSlot, Console_log ''Creating metadata account...'',
          Console_error (''Metadata deployment failed: '' @ message (cannot_read ''publicKey''))],
         Exit 1))"
    by (cases "loaded (key_file env ''mint-authority.json'')";
        cases "loaded (key_file env ''metadata-authority.json'')")
      (simp_all add: loadKeypairs_metadata_def lk deployMetadata_def checkNetworkHealth_def
        publicKey_of_def run_defs)
  have pool: "\<exists>kp. loadKeypairs_pool env = ok kp \<and>
      kp ''main'' = loaded (key_file env ''main-keypair.json'') \<and>
      kp ''liquidityAuthority'' = loaded (key_file env ''liquidity-authority.json'') \<and>
      (kp ''main'' = None \<and>
       check_mint_exists env \<lparr>cr_network = network, cr_config = cfg, cr_keypairs = kp\<rparr> = (t, Ok ()) \<longrightarrow>
       checkPrerequisites env \<lparr>cr_network = network, cr_config = cfg, cr_keypairs = kp\<rparr> =
        (Console_log ''Checking prerequisites...'' # t @
           [Console_error (''Failed to check SOL balance: '' @ message (cannot_read ''publicKey''))],
         Exit 1))"
    by (cases "loaded (key_file env ''main-keypair.json'')";
        cases "loaded (key_file env ''liquidity-authority.json'')")
      (simp_all add: loadKeypairs_pool_def lk checkPrerequisites_def check_sol_balance_def
        publicKey_of_def run_defs)
  from mint meta pool generic_message_names_no_credential show ?thesis by blast
qed

text \<open>
  The theorem at the environment without \<^verbatim>\<open>mint-authority.json\<close> and at the one without
  \<^verbatim>\<open>main-keypair.json\<close>.
\<close>

theorem C7_missing_credential_witness:
  "(\<forall>name e. key_file no_mint_authority_env name \<noteq> Unreadable e) \<and>
   (\<forall>name e. key_file no_main_keypair_env name \<noteq> Unreadable e) \<and>
   loaded (key_file no_mint_authority_env ''mint-authority.json'') = None \<and>
   loadKeypairs_mint no_mint_authority_env
     = ok [''freezeAuthority'' \<mapsto> ''key:freeze-authority.json''] \<and>
   getVersion_result no_mint_authority_env = None \<and> getSlot_result no_mint_authority_env = None \<and>
   main_mint no_mint_authority_env [] =
     ([Console_log ''Creating token mint...'',
       Console_error (''Failed to create token mint: '' @ message (cannot_read ''publicKey'')),
       Console_error (''Token minting failed: '' @ message (cannot_read ''publicKey''))], 1) \<and>
   main_metadata no_mint_authority_env [] =
     ([Rpc GetVersion, Rpc GetSlot, Console_log ''Creating metadata account...'',
       Console_error (''Metadata deployment failed: '' @ message (cannot_read ''publicKey''))], 1) \<and>
   loaded (key_file no_main_keypair_env ''main-keypair.json'') = None \<and>
   main_pool no_main_keypair_env [] =
     ([Console_log ''Checking prerequisites...'',
       Rpc (GetParsedAccountInfo ''FdaWtGGTfnWq8MU9ToCGBTQspuXhxyGpRjqY7M55V62n''),
       Console_log ''GLOWMIN mint found'',
       Console_error (''Failed to check SOL balance: '' @ message (cannot_read ''publicKey''))], 1)"
  using C7_missing_credential [where env = no_mint_authority_env and network = "''devnet''"
      and cfg = devnet_config and md = devnet_metadata and amount = None and dryRun = False
      and t = "[]"]
    C7_missing_credential [where env = no_main_keypair_env and network = "''devnet''"
      and cfg = devnet_config and md = devnet_metadata and amount = None and dryRun = False
      and t = "[Rpc (GetParsedAccountInfo ''FdaWtGGTfnWq8MU9ToCGBTQspuXhxyGpRjqY7M55V62n''),
                Console_log ''GLOWMIN mint found'']"]
  by (simp add: no_mint_authority_env_def no_main_keypair_env_def loaded_def mint_defs
      metadata_defs pool_defs run_defs devnet_defs)

text \<open>
  Claim C7 as stated (the later failure names the missing credential) fails there: neither
  message printed by \<^verbatim>\<open>mint-token.js\<close> contains \<^verbatim>\<open>mintAuthority\<close> or \<^verbatim>\<open>mint-authority\<close>.
\<close>

theorem C7_counterexample:
  "key_file no_mint_authority_env ''mint-authority.json'' = Absent \<and>
   console_errors (fst (main_mint no_mint_authority_env [])) =
     [''Failed to create token mint: '' @ message (cannot_read ''publicKey''),
      ''Token minting failed: '' @ message (cannot_read ''publicKey'')] \<and>
   \<not> contains ''mintAuthority''
       (''Failed to create token mint: '' @ message (cannot_read ''publicKey'')) \<and>
   \<not> contains ''mint-authority''
       (''Failed to create token mint: '' @ message (cannot_read ''publicKey'')) \<and>
   \<not> contains ''mintAuthority''
       (''Token minting failed: '' @ message (cannot_read ''publicKey'')) \<and>
   \<not> contains ''mint-authority''
       (''Token minting failed: '' @ message (cannot_read ''publicKey''))"
  by (simp add: no_mint_authority_env_def mint_defs run_defs devnet_defs cannot_read_def
      quoted_def)

section \<open>Persisted records\<close>

lemma digit_char_inj: "a < 10 \<Longrightarrow> b < 10 \<Longrightarrow> digit_char a = digit_char b \<Longrightarrow> a = b"
proof -
  assume a: "a < 10" and b: "b < 10" and eq: "digit_char a = digit_char b"
  have d: "distinct ''0123456789''" by simp
  have "a < length ''0123456789''" "b < length ''0123456789''" using a b by simp_all
  with d eq show ?thesis unfolding digit_char_def by (simp only: nth_eq_iff_index_eq)
qed

lemma toString_length: "length (toString n) = 1 \<longleftrightarrow> n < 10"
proof (induction n rule: toString.induct)
  case (1 n)
  show ?case
  proof (cases "n < 10")
    case True
    then show ?thesis by (simp add: toString.simps [of n])
  next
    case False
    have "toString (n div 10) \<noteq> []"
      by (subst toString.simps) simp
    then have "0 < length (toString (n div 10))" by simp
    with False show ?thesis by (simp add: toString.simps [of n])
  qed
qed

lemma toString_inj: "toString n = toString m \<Longrightarrow> n = m"
proof (induction n arbitrary: m rule: toString.induct)
  case (1 n)
  show ?case
  proof (cases "n < 10")
    case True
    with 1(2) have m: "m < 10" using toString_length [of n] toString_length [of m] by simp
    from True m 1(2) have "digit_char n = digit_char m"
      by (simp add: toString.simps [of n] toString.simps [of m])
    with True m show ?thesis by (rule digit_char_inj)
  next
    case False
    with 1(2) have m: "\<not> m < 10" using toString_length [of n] toString_length [of m] by simp
    from False m 1(2) have eq: "toString (n div 10) = toString (m div 10)"
      and last: "digit_char (n mod 10) = digit_char (m mod 10)"
      by (simp_all add: toString.simps [of n] toString.simps [of m])
    from 1(1) [OF False eq] have "n div 10 = m div 10" .
    moreover have "n mod 10 = m mod 10" using last by (intro digit_char_inj) simp_all
    ultimately show ?thesis by (metis div_mult_mod_eq)
  qed
qed

lemma infoPath_inj: "infoPath kind network a = infoPath kind network b \<Longrightarrow> a = b"
  by (simp add: infoPath_def toString_inj)

lemma file_writes_append: "file_writes (s @ t) = file_writes s @ file_writes t"
  by (induction s rule: file_writes.induct) simp_all

text \<open>
  Claim C8, as amended. \<^verbatim>\<open>saveDeploymentInfo\<close> creates the deployments directory when it is
  absent and writes the record to a path keyed by network and \<^verbatim>\<open>Date.now()\<close>; two records
  persisted at different \<^verbatim>\<open>Date.now()\<close> values (milliseconds) go to different paths, for
  every kind of record and network, and both are present afterwards.
\<close>

theorem C8_distinct_records:
  assumes "Date_now env1 \<noteq> Date_now env2"
    and "dp_keypairs this ''mintAuthority'' = Some mint"
    and "dp_keypairs this ''metadataAuthority'' = Some updateAuthority"
    and "mkdirSync_result env1 = None" and "writeFileSync_result env1 = None"
    and "mkdirSync_result env2 = None" and "writeFileSync_result env2 = None"
  shows
   "saveDeploymentInfo env1 this account1 =
      ((if deployments_dir_exists env1 then [] else [Fs_mkdir deployments_dir]) @
       [Fs_write (infoPath ''metadata'' (dp_network this) (Date_now env1))
          (Deployment_info (new_Date env1) (dp_network this) account1 mint updateAuthority
             (metadataUri this)),
        Console_log ''Deployment info saved''], Ok ()) \<and>
    infoPath kind network (Date_now env1) \<noteq> infoPath kind network (Date_now env2) \<and>
    files_after (fst (saveDeploymentInfo env1 this account1) @ fst (saveDeploymentInfo env2 this account2))
        (infoPath ''metadata'' (dp_network this) (Date_now env1)) =
      Some (Deployment_info (new_Date env1) (dp_network this) account1 mint updateAuthority
              (metadataUri this)) \<and>
    files_after (fst (saveDeploymentInfo env1 this account1) @ fst (saveDeploymentInfo env2 this account2))
        (infoPath ''metadata'' (dp_network this) (Date_now env2)) =
      Some (Deployment_info (new_Date env2) (dp_network this) account2 mint updateAuthority
              (metadataUri this))"
proof -
  have ne: "infoPath k n (Date_now env1) \<noteq> infoPath k n (Date_now env2)" for k n
    using assms(1) infoPath_inj by blast
  have s1: "saveDeploymentInfo env1 this account1 =
      ((if deployments_dir_exists env1 then [] else [Fs_mkdir deployments_dir]) @
       [Fs_write (infoPath ''metadata'' (dp_network this) (Date_now env1))
          (Deployment_info (new_Date env1) (dp_network this) account1 mint updateAuthority
             (metadataUri this)),
        Console_log ''Deployment info saved''], Ok ())"
    using assms(2-5)
    by (simp add: saveDeploymentInfo_def ensure_deployments_dir_def publicKey_of_def run_defs)
  have s2: "saveDeploymentInfo env2 this account2 =
      ((if deployments_dir_exists env2 then [] else [Fs_mkdir deployments_dir]) @
       [Fs_write (infoPath ''metadata'' (dp_network this) (Date_now env2))
          (Deployment_info (new_Date env2) (dp_network this) account2 mint updateAuthority
             (metadataUri this)),
        Console_log ''Deployment info saved''], Ok ())"
    using assms(2,3,6,7)
    by (simp add: saveDeploymentInfo_def ensure_deployments_dir_def publicKey_of_def run_defs)
  show ?thesis
    using ne [of "''metadata''" "dp_network this"] ne [of kind network]
    unfolding s1 s2 by (simp add: files_after_def file_writes_append)
qed

text \<open>
  The theorem for two runs one millisecond apart.
\<close>

theorem C8_distinct_records_witness:
  "Date_now devnet_env \<noteq> Date_now (devnet_env\<lparr>Date_now := 1700000000001\<rparr>) \<and>
   saveDeploymentInfo devnet_env devnet_deployer ''MetadataAccountA'' =
     ([Fs_mkdir ''../deployments'',
       Fs_write ''../deployments/metadata-devnet-1700000000000.json''
         (Deployment_info 1700000000000 ''devnet'' ''MetadataAccountA'' ''key:mint-authority.json''
            ''key:metadata-authority.json''
            ''https://glowmin.alfanestlabs.xyz/metadata/token-metadata.json''),
       Console_log ''Deployment info saved''], Ok ()) \<and>
   infoPath ''metadata'' ''devnet'' 1700000000000 \<noteq> infoPath ''metadata'' ''devnet'' 1700000000001 \<and>
   dom (files_after
     (fst (saveDeploymentInfo devnet_env devnet_deployer ''MetadataAccountA'') @
      fst (saveDeploymentInfo (devnet_env\<lparr>Date_now := 1700000000001\<rparr>) devnet_deployer
             ''MetadataAccountB''))) =
     {''../deployments/metadata-devnet-1700000000001.json'',
      ''../deployments/metadata-devnet-1700000000000.json''}"
  using C8_distinct_records [where ?env1.0 = devnet_env
      and ?env2.0 = "devnet_env\<lparr>Date_now := 1700000000001\<rparr>" and this = devnet_deployer
      and mint = "''key:mint-authority.json''" and updateAuthority = "''key:metadata-authority.json''"
      and ?account1.0 = "''MetadataAccountA''" and ?account2.0 = "''MetadataAccountB''"
      and kind = "''metadata''" and network = "''devnet''"]
  by (simp add: devnet_deployer_def devnet_defs saveDeploymentInfo_def ensure_deployments_dir_def
      publicKey_of_def run_defs infoPath_def deployments_dir_def metadataUri_def toString.simps
      digit_char_def files_after_def)

text \<open>
  Claim C8 as stated (never overwrites; two runs within the same second give two files)
  fails for two runs on the same network in the same millisecond: both write the same path,
  and only the second record remains.
\<close>

theorem C8_counterexample:
  "map fst (file_writes
     (fst (saveDeploymentInfo devnet_env devnet_deployer ''MetadataAccountA'') @
      fst (saveDeploymentInfo devnet_env devnet_deployer ''MetadataAccountB''))) =
     [''../deployments/metadata-devnet-1700000000000.json'',
      ''../deployments/metadata-devnet-1700000000000.json''] \<and>
   files_after
     (fst (saveDeploymentInfo devnet_env devnet_deployer ''MetadataAccountA'') @
      fst (saveDeploymentInfo devnet_env devnet_deployer ''MetadataAccountB''))
     ''../deployments/metadata-devnet-1700000000000.json'' =
     Some (Deployment_info 1700000000000 ''devnet'' ''MetadataAccountB'' ''key:mint-authority.json''
            ''key:metadata-authority.json''
            ''https://glowmin.alfanestlabs.xyz/metadata/token-metadata.json'') \<and>
   dom (files_after
     (fst (saveDeploymentInfo devnet_env devnet_deployer ''MetadataAccountA'') @
      fst (saveDeploymentInfo devnet_env devnet_deployer ''MetadataAccountB''))) =
     {''../deployments/metadata-devnet-1700000000000.json''}"
  by (simp add: devnet_deployer_def devnet_defs saveDeploymentInfo_def ensure_deployments_dir_def
      publicKey_of_def run_defs infoPath_def deployments_dir_def metadataUri_def toString.simps
      digit_char_def files_after_def)

section \<open>Unrecognized arguments\<close>

lemma parseArgs_mint_loop_skip:
  "a \<notin> set mint_flags \<Longrightarrow> parseArgs_mint_loop (a # rest) opts = parseArgs_mint_loop rest opts"
  by (simp add: mint_flags_def)

lemma parseArgs_metadata_loop_skip:
  "a \<notin> set metadata_flags \<Longrightarrow>
    parseArgs_metadata_loop (a # rest) opts = parseArgs_metadata_loop rest opts"
  by (simp add: metadata_flags_def)

lemma parseArgs_pool_loop_skip:
  "a \<notin> set pool_flags \<Longrightarrow> parseArgs_pool_loop (a # rest) opts = parseArgs_pool_loop rest opts"
  by (simp add: pool_flags_def)

lemma parseArgs_mint_loop_ignores:
  "at_flag_position [''--network'', ''--amount''] xs \<Longrightarrow> a \<notin> set mint_flags \<Longrightarrow>
    parseArgs_mint_loop (xs @ a # ys) opts = parseArgs_mint_loop (xs @ ys) opts"
proof (induction "[''--network'', ''--amount'']" xs arbitrary: opts rule: at_flag_position.induct)
  case 1
  from 1(2) show ?case unfolding append_Nil by (rule parseArgs_mint_loop_skip)
next
  case (2 x rest)
  show ?case
  proof (cases "x \<in> set [''--network'', ''--amount'']")
    case True
    with 2(3) obtain v rest' where rest: "rest = v # rest'"
      and pos: "at_flag_position [''--network'', ''--amount''] rest'"
      by (cases rest) auto
    have ih: "\<And>opts. parseArgs_mint_loop (rest' @ a # ys) opts = parseArgs_mint_loop (rest' @ ys) opts"
      using 2(1) [OF True rest pos 2(4)] .
    from True show ?thesis by (auto simp: rest ih split: sum.splits)
  next
    case False
    with 2(3) have pos: "at_flag_position [''--network'', ''--amount''] rest" by simp
    have ih: "\<And>opts. parseArgs_mint_loop (rest @ a # ys) opts = parseArgs_mint_loop (rest @ ys) opts"
      using 2(2) [OF False pos 2(4)] .
    from False show ?thesis by (simp add: ih)
  qed
qed

lemma parseArgs_metadata_loop_ignores:
  "at_flag_position [''--network''] xs \<Longrightarrow> a \<notin> set metadata_flags \<Longrightarrow>
    parseArgs_metadata_loop (xs @ a # ys) opts = parseArgs_metadata_loop (xs @ ys) opts"
proof (induction "[''--network'']" xs arbitrary: opts rule: at_flag_position.induct)
  case 1
  from 1(2) show ?case unfolding append_Nil by (rule parseArgs_metadata_loop_skip)
next
  case (2 x rest)
  show ?case
  proof (cases "x \<in> set [''--network'']")
    case True
    with 2(3) obtain v rest' where rest: "rest = v # rest'"
      and pos: "at_flag_position [''--network''] rest'"
      by (cases rest) auto
    have ih: "\<And>opts. parseArgs_metadata_loop (rest' @ a # ys) opts
        = parseArgs_metadata_loop (rest' @ ys) opts"
      using 2(1) [OF True rest pos 2(4)] .
    from True show ?thesis by (auto simp: rest ih)
  next
    case False
    with 2(3) have pos: "at_flag_position [''--network''] rest" by simp
    have ih: "\<And>opts. parseArgs_metadata_loop (rest @ a # ys) opts
        = parseArgs_metadata_loop (rest @ ys) opts"
      using 2(2) [OF False pos 2(4)] .
    from False show ?thesis by (simp add: ih)
  qed
qed

lemma parseArgs_pool_loop_ignores:
  "at_flag_position [''--network'', ''--sol-amount''] xs \<Longrightarrow> a \<notin> set pool_flags \<Longrightarrow>
    parseArgs_pool_loop (xs @ a # ys) opts = parseArgs_pool_loop (xs @ ys) opts"
proof (induction "[''--network'', ''--sol-amount'']" xs arbitrary: opts
    rule: at_flag_position.induct)
  case 1
  from 1(2) show ?case unfolding append_Nil by (rule parseArgs_pool_loop_skip)
next
  case (2 x rest)
  show ?case
  proof (cases "x \<in> set [''--network'', ''--sol-amount'']")
    case True
    with 2(3) obtain v rest' where rest: "rest = v # rest'"
      and pos: "at_flag_position [''--network'', ''--sol-amount''] rest'"
      by (cases rest) auto
    have ih: "\<And>opts. parseArgs_pool_loop (rest' @ a # ys) opts
        = parseArgs_pool_loop (rest' @ ys) opts"
      using 2(1) [OF True rest pos 2(4)] .
    from True show ?thesis by (auto simp: rest ih)
  next
    case False
    with 2(3) have pos: "at_flag_position [''--network'', ''--sol-amount''] rest" by simp
    have ih: "\<And>opts. parseArgs_pool_loop (rest @ a # ys) opts
        = parseArgs_pool_loop (rest @ ys) opts"
      using 2(2) [OF False pos 2(4)] .
    from False show ?thesis by (simp add: ih)
  qed
qed

text \<open>
  Claim C10, as amended. In each of the three parsers, an argument that is not a recognized
  flag and that stands where a flag is expected (it is not taken as the value of a preceding
  \<^verbatim>\<open>--network\<close>, \<^verbatim>\<open>--amount\<close> or \<^verbatim>\<open>--sol-amount\<close>) is ignored: the result of \<^verbatim>\<open>parseArgs\<close>,
  options, error or exit, is the same as without it.
\<close>

theorem C10_unrecognized_flag_ignored:
  "(at_flag_position [''--network'', ''--amount''] xs \<and> a \<notin> set mint_flags \<longrightarrow>
      parseArgs_mint (xs @ a # ys) = parseArgs_mint (xs @ ys)) \<and>
   (at_flag_position [''--network''] xs \<and> a \<notin> set metadata_flags \<longrightarrow>
      parseArgs_metadata (xs @ a # ys) = parseArgs_metadata (xs @ ys)) \<and>
   (at_flag_position [''--network'', ''--sol-amount''] xs \<and> a \<notin> set pool_flags \<longrightarrow>
      parseArgs_pool (xs @ a # ys) = parseArgs_pool (xs @ ys))"
  by (simp add: parseArgs_mint_def parseArgs_metadata_def parseArgs_pool_def
      parseArgs_mint_loop_ignores parseArgs_metadata_loop_ignores parseArgs_pool_loop_ignores)

text \<open>
  The mistyped flag \<^verbatim>\<open>--dryrun\<close> in flag position leaves \<^verbatim>\<open>dryRun\<close> false.
\<close>

theorem C10_unrecognized_flag_ignored_witness:
  "at_flag_position [''--network'', ''--amount''] [''--network'', ''devnet''] \<and>
   ''--dryrun'' \<notin> set mint_flags \<and>
   parseArgs_mint ([''--network'', ''devnet''] @ ''--dryrun'' # [''--verbose''])
     = parseArgs_mint ([''--network'', ''devnet''] @ [''--verbose'']) \<and>
   at_flag_position [''--network''] [''--verbose''] \<and>
   ''--dryrun'' \<notin> set metadata_flags \<and>
   parseArgs_metadata ([''--verbose''] @ ''--dryrun'' # [])
     = parseArgs_metadata ([''--verbose''] @ []) \<and>
   at_flag_position [''--network'', ''--sol-amount''] [''--sol-amount'', ''5''] \<and>
   ''--dryrun'' \<notin> set pool_flags \<and>
   parseArgs_pool ([''--sol-amount'', ''5''] @ ''--dryrun'' # [])
     = parseArgs_pool ([''--sol-amount'', ''5''] @ []) \<and>
   parseArgs_mint [''--dryrun''] = ok mint_defaults"
  using C10_unrecognized_flag_ignored [of "[''--network'', ''devnet'']" "''--dryrun''" "[''--verbose'']"]
    C10_unrecognized_flag_ignored [of "[''--verbose'']" "''--dryrun''" "[]"]
    C10_unrecognized_flag_ignored [of "[''--sol-amount'', ''5'']" "''--dryrun''" "[]"]
  by (simp add: mint_flags_def metadata_flags_def pool_flags_def parseArgs_mint_def
      mint_defaults_def)

text \<open>
  Claim C10 as stated (every argument that is not a recognized flag) fails for
  \<^verbatim>\<open>--network --dryrun\<close>: the mistyped flag becomes the network name and the run stops with
  status 1 before any call, while \<^verbatim>\<open>--network\<close> alone falls back to \<^verbatim>\<open>devnet\<close> and goes on to
  the network.
\<close>

theorem C10_counterexample:
  "''--dryrun'' \<notin> set mint_flags \<and>
   parseArgs_mint ([''--network''] @ ''--dryrun'' # []) \<noteq> parseArgs_mint ([''--network''] @ []) \<and>
   main_mint devnet_env ([''--network''] @ ''--dryrun'' # []) =
     ([Console_error (''Network '' @ quoted ''--dryrun'' @ '' not found in configuration'')], 1) \<and>
   snd (main_mint devnet_env ([''--network''] @ [])) = 1 \<and>
   rpc_calls (fst (main_mint devnet_env ([''--network''] @ []))) \<noteq> []"
  by (simp add: mint_flags_def mint_defs run_defs devnet_defs plan_100000000)

end
